theory Spec2Isabelle
  imports Main "HOL-Library.Sublist" "HOL-Library.Multiset"
begin

section \<open>Python values shared by the modules\<close>

text \<open>
  A naive \<open>datetime\<close> is modelled by its position on the time line: the number of
  microseconds since \<open>0001-01-01 00:00:00\<close>, the library's smallest datetime. A
  \<open>timedelta\<close> is a signed number of microseconds. The library represents the
  datetimes from \<open>min_datetime\<close> to \<open>max_datetime\<close> (the last microsecond of the year
  9999) and the timedeltas of at most 999999999 days; a computation that leaves these
  ranges raises \<open>OverflowError\<close>. The difference of two datetimes always fits a
  timedelta.
\<close>

type_synonym datetime = int
type_synonym timedelta = int

definition us_per_day :: int where
  "us_per_day = 86400000000"

definition min_datetime :: datetime where
  "min_datetime = 0"

definition max_datetime :: datetime where
  "max_datetime = 3652059 * us_per_day - 1"

text \<open>The \<open>.days\<close> attribute of a timedelta: the normalised day count, rounded down.\<close>

definition td_days :: "timedelta \<Rightarrow> int" where
  "td_days td = td div us_per_day"

text \<open>
  \<open>datetime.now()\<close> reads the clock. A call of a function may read it several times;
  \<open>now k\<close> is what the \<open>k\<close>-th reading during the call returns.
\<close>

type_synonym clock = "nat \<Rightarrow> datetime"

text \<open>The apostrophe, for the quotes inside messages.\<close>

definition apos :: string where
  "apos = [CHR 0x27]"

datatype py_exception =
    NameError string
  | KeyError string
  | IndexError string
  | AttributeError string
  | TypeError string
  | NoSectionError string
  | NoOptionError string string
  | RequestException string
  | OSError string
  | OverflowError string
  | InterpolationSyntaxError string
  | Exception string

text \<open>\<open>str(e)\<close>, which the handlers put into their messages.\<close>

fun str_exception :: "py_exception \<Rightarrow> string" where
  "str_exception (NameError m) = m"
| "str_exception (KeyError k) = apos @ k @ apos"
| "str_exception (IndexError m) = m"
| "str_exception (AttributeError m) = m"
| "str_exception (TypeError m) = m"
| "str_exception (NoSectionError s) = ''No section: '' @ apos @ s @ apos"
| "str_exception (NoOptionError k s) =
     ''No option '' @ apos @ k @ apos @ '' in section: '' @ apos @ s @ apos"
| "str_exception (RequestException m) = m"
| "str_exception (OSError m) = m"
| "str_exception (OverflowError m) = m"
| "str_exception (InterpolationSyntaxError m) = m"
| "str_exception (Exception m) = m"

datatype level = INFO | WARNING | ERROR | CRITICAL

type_synonym log_record = "level \<times> string"

text \<open>\<open>str\<close> of an integer, as the f-strings of the source render it.\<close>

definition digit :: "nat \<Rightarrow> char" where
  "digit d = ''0123456789'' ! d"

fun str_nat :: "nat \<Rightarrow> string" where
  "str_nat n = (if n < 10 then [digit n] else str_nat (n div 10) @ [digit (n mod 10)])"

declare str_nat.simps [simp del]

definition str_int :: "int \<Rightarrow> string" where
  "str_int i = (if i < 0 then ''-'' @ str_nat (nat (- i)) else str_nat (nat i))"

text \<open>The slice \<open>xs[:n]\<close>: a negative \<open>n\<close> counts from the end.\<close>

definition slice_upto :: "'a list \<Rightarrow> int \<Rightarrow> 'a list" where
  "slice_upto xs n =
     (if 0 \<le> n then take (nat n) xs else take (length xs - nat (- n)) xs)"

text \<open>Sequencing of calls that may raise: the first exception ends the computation.\<close>

definition and_then :: "'e + 'a \<Rightarrow> ('a \<Rightarrow> 'e + 'b) \<Rightarrow> 'e + 'b" where
  "and_then r f = (case r of Inl e \<Rightarrow> Inl e | Inr v \<Rightarrow> f v)"

text \<open>\<open>timedelta(days=d)\<close> for an integer \<open>d\<close>.\<close>

definition timedelta_of_days :: "int \<Rightarrow> py_exception + timedelta" where
  "timedelta_of_days d =
     (if \<bar>d\<bar> \<le> 999999999 then Inr (d * us_per_day)
      else Inl (OverflowError (''days='' @ str_int d @ ''; must have magnitude <= 999999999'')))"

text \<open>\<open>dt - td\<close> for a datetime and a timedelta.\<close>

definition datetime_minus :: "datetime \<Rightarrow> timedelta \<Rightarrow> py_exception + datetime" where
  "datetime_minus dt td =
     (if min_datetime \<le> dt - td \<and> dt - td \<le> max_datetime then Inr (dt - td)
      else Inl (OverflowError ''date value out of range''))"

text \<open>Attribute access on a parsed-feed object.\<close>

definition getattr :: "string \<Rightarrow> 'a option \<Rightarrow> py_exception + 'a" where
  "getattr attr v =
     (case v of
        None \<Rightarrow> Inl (AttributeError (''object has no attribute '' @ apos @ attr @ apos))
      | Some x \<Rightarrow> Inr x)"

section \<open>Papers\<close>

text \<open>
  A paper is the dict that \<open>fetch_recent_papers\<close> builds; \<open>rank_papers\<close> adds the key
  \<open>score\<close>. A list of papers holds references to dict objects, and \<open>rank_papers\<close>
  writes to them in place, so a list is a list of addresses into a heap of dicts: two
  equal addresses in a list are the same object.
\<close>

record paper =
  title :: string
  authors :: "string list"
  summary :: string
  link :: string
  published :: datetime
  updated :: datetime
  score :: "int option"

type_synonym addr = nat
type_synonym heap = "addr \<Rightarrow> paper"

section \<open>arxiv_scrapper.py\<close>

subsection \<open>fetch_recent_papers\<close>

text \<open>
  An entry of the parsed feed. Reading an attribute that the entry lacks raises
  \<open>AttributeError\<close>: an absent attribute is \<open>None\<close> here. \<open>published_parsed\<close> and
  \<open>updated_parsed\<close> are time tuples, or Python's \<open>None\<close> when the feed's date did not
  parse.
\<close>

record feed_author =
  author_name :: "string option"

record feed_entry =
  entry_title :: "string option"
  entry_authors :: "feed_author list option"
  entry_summary :: "string option"
  entry_link :: "string option"
  published_parsed :: "int list option option"
  updated_parsed :: "int list option option"

record feed =
  bozo :: bool
  entries :: "feed_entry list"

text \<open>\<open>[author.name for author in entry.authors]\<close>\<close>

fun author_names :: "feed_author list \<Rightarrow> py_exception + string list" where
  "author_names [] = Inr []"
| "author_names (author # rest) =
     and_then (getattr ''name'' (author_name author)) (\<lambda>n.
     and_then (author_names rest) (\<lambda>ns. Inr (n # ns)))"

text \<open>
  \<open>datetime(*t[:6])\<close> for the attribute \<open>t\<close>; \<open>mk_datetime\<close> is the library's
  \<open>datetime\<close> constructor, which raises on fields out of range.
\<close>

definition parsed_datetime ::
  "(int list \<Rightarrow> py_exception + datetime) \<Rightarrow> string \<Rightarrow> int list option option
     \<Rightarrow> py_exception + datetime" where
  "parsed_datetime mk_datetime attr v =
     and_then (getattr attr v) (\<lambda>t.
       case t of
         None \<Rightarrow> Inl (TypeError (apos @ ''NoneType'' @ apos @ '' object is not subscriptable''))
       | Some t6 \<Rightarrow> mk_datetime (take 6 t6))"

definition paper_details ::
  "(int list \<Rightarrow> py_exception + datetime) \<Rightarrow> feed_entry \<Rightarrow> py_exception + paper" where
  "paper_details mk_datetime entry =
     and_then (getattr ''title'' (entry_title entry)) (\<lambda>t.
     and_then (getattr ''authors'' (entry_authors entry)) (\<lambda>as.
     and_then (author_names as) (\<lambda>ns.
     and_then (getattr ''summary'' (entry_summary entry)) (\<lambda>s.
     and_then (getattr ''link'' (entry_link entry)) (\<lambda>l.
     and_then (parsed_datetime mk_datetime ''published_parsed'' (published_parsed entry)) (\<lambda>p.
     and_then (parsed_datetime mk_datetime ''updated_parsed'' (updated_parsed entry)) (\<lambda>u.
       Inr \<lparr> title = t, authors = ns, summary = s, link = l,
             published = p, updated = u, score = None \<rparr>)))))))"

text \<open>The \<open>for entry in response.entries\<close> loop.\<close>

fun entries_loop ::
  "(int list \<Rightarrow> py_exception + datetime) \<Rightarrow> feed_entry list \<Rightarrow> paper list
     \<Rightarrow> py_exception + paper list" where
  "entries_loop mk_datetime [] papers = Inr papers"
| "entries_loop mk_datetime (entry # rest) papers =
     and_then (paper_details mk_datetime entry) (\<lambda>d.
       entries_loop mk_datetime rest (papers @ [d]))"

definition search_url :: "string \<Rightarrow> int \<Rightarrow> string \<Rightarrow> string" where
  "search_url query max_results sort_by =
     (let base_url = ''http://export.arxiv.org/api/query?'';
          search_query = ''search_query=all:'' @ query @ ''&start=0&max_results=''
                           @ str_int max_results @ ''&sortBy='' @ sort_by
      in base_url @ search_query)"

text \<open>
  \<open>parse\<close> is \<open>feedparser.parse\<close>: given the URL it raises or returns the parsed feed.
  The result is the lines printed and what the call returns or raises; the papers are
  the dicts the call has just built. The \<open>try\<close> block catches every \<open>Exception\<close>.
\<close>

definition fetch_recent_papers ::
  "(string \<Rightarrow> py_exception + feed) \<Rightarrow> (int list \<Rightarrow> py_exception + datetime)
     \<Rightarrow> string \<Rightarrow> int \<Rightarrow> string \<Rightarrow> string list \<times> (py_exception + paper list)" where
  "fetch_recent_papers parse mk_datetime query max_results sort_by =
     (let out = [''Fetching papers with query: '' @ query @ ''...''];
          body =
            and_then (parse (search_url query max_results sort_by)) (\<lambda>response.
              if bozo response
              then Inl (Exception ''Failed to parse feed. Is the arXiv API reachable?'')
              else entries_loop mk_datetime (entries response) [])
      in case body of
           Inr papers \<Rightarrow> (out, Inr papers)
         | Inl e \<Rightarrow> (out @ [''An error occurred: '' @ str_exception e], Inr []))"

subsection \<open>filter_papers_by_timeframe\<close>

text \<open>
  The result is the lines printed and the list returned, or the exception that leaves
  the function: the cutoff is computed outside any \<open>try\<close> block.
\<close>

definition filter_papers_by_timeframe ::
  "clock \<Rightarrow> heap \<Rightarrow> addr list \<Rightarrow> int \<Rightarrow> string list \<times> (py_exception + addr list)" where
  "filter_papers_by_timeframe now h papers days =
     (case and_then (timedelta_of_days days) (datetime_minus (now 0)) of
        Inl e \<Rightarrow> ([], Inl e)
      | Inr cutoff_date \<Rightarrow>
          let filtered_papers =
                [p \<leftarrow> papers. published (h p) > cutoff_date \<or> updated (h p) > cutoff_date]
          in ([''Filtered to '' @ str_nat (length filtered_papers)
                 @ '' papers published in the last '' @ str_int days @ '' days.''],
              Inr filtered_papers))"

section \<open>paper_ranker.py\<close>

subsection \<open>rank_papers\<close>

text \<open>
  \<open>sorted(xs, key=key, reverse=True)\<close>: the list is reversed, sorted by a stable
  ascending sort and reversed again, so elements with equal keys keep their order.
\<close>

definition py_sorted_reverse :: "('a \<Rightarrow> int) \<Rightarrow> 'a list \<Rightarrow> 'a list" where
  "py_sorted_reverse key xs = rev (sort_key key (rev xs))"

text \<open>
  The \<open>for paper in papers\<close> loop of the \<open>simple\<close> strategy. Each iteration reads the
  clock (\<open>k\<close> counts the readings), writes the key \<open>score\<close> into the dict object and
  appends the object to \<open>scored_papers\<close>.
\<close>

fun score_loop ::
  "clock \<Rightarrow> nat \<Rightarrow> addr list \<Rightarrow> heap \<times> addr list \<Rightarrow> heap \<times> addr list" where
  "score_loop now k [] (h, scored_papers) = (h, scored_papers)"
| "score_loop now k (paper # rest) (h, scored_papers) =
     (let score0 = 0;
          recency_score = td_days (now k - published (h paper));
          score1 = score0 + max 0 (30 - recency_score)
      in score_loop now (Suc k) rest
           (h(paper := (h paper)\<lparr>score := Some score1\<rparr>), scored_papers @ [paper]))"

text \<open>
  \<open>sorted(scored_papers, key=lambda p: p['score'], reverse=True)\<close>; the key function
  raises \<open>KeyError\<close> on a dict without the key.
\<close>

definition sorted_by_score :: "heap \<Rightarrow> addr list \<Rightarrow> py_exception + addr list" where
  "sorted_by_score h ps =
     (if list_all (\<lambda>p. score (h p) \<noteq> None) ps
      then Inr (py_sorted_reverse (\<lambda>p. the (score (h p))) ps)
      else Inl (KeyError ''score''))"

text \<open>
  \<open>paper_ranker.py\<close> imports \<open>datetime\<close> only under
  \<open>if __name__ == "__main__":\<close>, so the global name \<open>datetime\<close> that the loop reads
  is bound when the module runs as a script and unbound when it is imported (as
  \<open>main.py\<close> does), where the first iteration raises \<open>NameError\<close>.
  \<open>module_name\<close> is the module's \<open>__name__\<close>. The result is the log records, the
  heap after the call, and the returned list or the exception raised.
\<close>

definition rank_papers ::
  "string \<Rightarrow> clock \<Rightarrow> heap \<Rightarrow> addr list \<Rightarrow> string
     \<Rightarrow> log_record list \<times> heap \<times> (py_exception + addr list)" where
  "rank_papers module_name now h papers ranking_strategy =
     (if papers = [] then ([(WARNING, ''No papers provided to rank.'')], h, Inr [])
      else
        let log1 = [(INFO, ''Ranking '' @ str_nat (length papers) @ '' papers using the ''
                       @ apos @ ranking_strategy @ apos @ '' strategy.'')]
        in if ranking_strategy = ''simple'' then
             (if module_name = ''__main__'' then
                (case score_loop now 0 papers (h, []) of
                   (h', scored_papers) \<Rightarrow> (log1, h', sorted_by_score h' scored_papers))
              else (log1, h,
                    Inl (NameError (''name '' @ apos @ ''datetime'' @ apos
                                      @ '' is not defined''))))
           else (log1 @ [(ERROR, ''Unknown ranking strategy: '' @ ranking_strategy)],
                 h, Inr papers))"

subsection \<open>select_top_paper\<close>

definition select_top_paper :: "addr list \<Rightarrow> int \<Rightarrow> log_record list \<times> addr list" where
  "select_top_paper ranked_papers top_n =
     (if ranked_papers = [] then ([(WARNING, ''No papers to select from.'')], [])
      else ([], slice_upto ranked_papers top_n))"

text \<open>
  The selection as the specification words it, for comparison: the first \<open>topN\<close>
  entries of the ranked list whose abstract has at least \<open>minAbstractLength\<close> characters.
\<close>

definition spec_select :: "heap \<Rightarrow> addr list \<Rightarrow> nat \<Rightarrow> nat \<Rightarrow> addr list" where
  "spec_select h ranked topN minAbstractLength =
     take topN [p \<leftarrow> ranked. minAbstractLength \<le> length (summary (h p))]"

section \<open>Configuration\<close>

text \<open>
  The \<open>ConfigParser\<close> object is taken by what its method \<open>get\<close> does:
  \<open>config section option\<close> is what \<open>config.get(section, option)\<close> returns or raises
  (\<open>NoSectionError\<close>, \<open>NoOptionError\<close>, or an interpolation error for a value that
  the parser cannot expand). No function here changes the object, so the same lookup
  gives the same result throughout a call.
\<close>

type_synonym config = "string \<Rightarrow> string \<Rightarrow> py_exception + string"

text \<open>
  A configuration given by its sections and options, none of whose values contains a
  percent sign: \<open>get\<close> returns the value as it stands.
\<close>

definition plain_config :: "(string \<rightharpoonup> (string \<rightharpoonup> string)) \<Rightarrow> config" where
  "plain_config sections section option =
     (case sections section of
        None \<Rightarrow> Inl (NoSectionError section)
      | Some options \<Rightarrow>
          (case options option of
             None \<Rightarrow> Inl (NoOptionError option section)
           | Some v \<Rightarrow> Inr v))"

section \<open>llm_podcaster.py\<close>

definition nl :: string where
  "nl = [CHR 0x0A]"

text \<open>\<open>sep.join(xs)\<close>\<close>

fun join :: "string \<Rightarrow> string list \<Rightarrow> string" where
  "join sep [] = []"
| "join sep [x] = x"
| "join sep (x # y # ys) = x @ sep @ join sep (y # ys)"

definition script_prompt :: string where
  "script_prompt =
     ''You are a podcast script generator. The podcast is a discussion between an ''
     @ ''ML Expert, a Neuroscientist, and a Psychologist. Your task is to generate ''
     @ ''a compelling, conversational script based on the provided research paper.''
     @ nl @ nl
     @ ''The script should be a discussion between:'' @ nl
     @ ''- A friendly ML expert, explaining the technical details.'' @ nl
     @ ''- An enthusiastic Neuroscientist, connecting the findings to brain function.'' @ nl
     @ ''- A pragmatic Psychologist, discussing the human implications.''"

text \<open>
  The script-synthesis service as the function meets it: \<open>load_model\<close> is the
  construction of \<open>LlamaCPP\<close> from the model path (an exception, or none);
  \<open>run_query\<close> is the body of the \<open>try\<close> block, from writing the temporary file to
  \<open>str(response)\<close>, given the document text and the prompt (an exception, among them a
  timeout, or the generated text); \<open>cleanup\<close> is the removal of the temporary file in
  the \<open>finally\<close> block.
\<close>

record llm_service =
  load_model :: "string \<Rightarrow> py_exception option"
  run_query :: "string \<Rightarrow> string \<Rightarrow> py_exception + string"
  cleanup :: "py_exception option"

text \<open>The document handed to the index: title, authors and abstract.\<close>

definition text_content :: "paper \<Rightarrow> string" where
  "text_content paper =
     ''Title: '' @ title paper @ nl
     @ ''Authors: '' @ join '', '' (authors paper) @ nl
     @ ''Abstract: '' @ summary paper"

definition generate_podcast_script ::
  "llm_service \<Rightarrow> paper \<Rightarrow> config \<Rightarrow> log_record list \<times> (py_exception + string)" where
  "generate_podcast_script llm paper config =
     (let log1 = [(INFO, ''Generating podcast script for paper: ''
                          @ apos @ title paper @ apos)]
      in case config ''llm'' ''model_path'' of
           Inl e \<Rightarrow> (log1, Inl e)
         | Inr model_path \<Rightarrow>
             (case load_model llm model_path of
                Some e \<Rightarrow> (log1, Inl e)
              | None \<Rightarrow>
                  let (log2, returned) =
                        (case run_query llm (text_content paper) script_prompt of
                           Inr generated_text \<Rightarrow> (log1, generated_text)
                         | Inl e \<Rightarrow>
                             (log1 @ [(ERROR, ''Failed to generate podcast script: ''
                                               @ str_exception e)], []))
                  in case cleanup llm of
                       Some e \<Rightarrow> (log2, Inl e)
                     | None \<Rightarrow> (log2, Inr returned)))"

section \<open>script_to_audio.py\<close>

text \<open>The structured script of the docstring: a title and the turns of the dialogue.\<close>

record script_turn =
  speaker :: string
  utterance :: string

record script =
  script_title :: string
  dialogue :: "script_turn list"

text \<open>
  The request that \<open>requests.post\<close> sends: the URL and, of the JSON payload, the text
  part, the voice of each of the three configured speakers and the model.
\<close>

record http_request =
  request_url :: string
  payload_text :: string
  speaker_voice_configs :: "(string \<times> string) list"
  payload_model :: string

text \<open>
  How the \<open>try\<close> block ends once the request is posted: a
  \<open>requests.exceptions.RequestException\<close> (transport failure or error status), a
  \<open>KeyError\<close> or \<open>IndexError\<close> (an envelope without the audio), any other exception
  (decoding or writing the audio), or the audio file saved.
\<close>

datatype tts_outcome =
    RequestFailed string
  | UnexpectedFormat string
  | UnexpectedError string
  | AudioSaved

definition dict_getitem :: "(string \<rightharpoonup> 'v) \<Rightarrow> string \<Rightarrow> py_exception + 'v" where
  "dict_getitem d k = (case d k of None \<Rightarrow> Inl (KeyError k) | Some v \<Rightarrow> Inr v)"

text \<open>
  Everything before the \<open>try\<close> block: the configuration lookups, the dict
  \<open>speaker_voice_mapping\<close> and the placeholder payload. An exception here leaves the
  function.
\<close>

definition build_request :: "config \<Rightarrow> py_exception + http_request" where
  "build_request config =
     and_then (config ''api_keys'' ''tts_api_key'') (\<lambda>tts_api_key.
     and_then (config ''tts'' ''api_url'') (\<lambda>tts_api_url.
     and_then (config ''podcast'' ''expert_1'') (\<lambda>k1.
     and_then (config ''podcast'' ''expert_2'') (\<lambda>k2.
     and_then (config ''podcast'' ''expert_3'') (\<lambda>k3.
       let speaker_voice_mapping = [k1 \<mapsto> ''Zephyr'', k2 \<mapsto> ''Puck'', k3 \<mapsto> ''Kore'']
       in
     and_then (config ''podcast'' ''expert_1'') (\<lambda>e1.
     and_then (dict_getitem speaker_voice_mapping e1) (\<lambda>v1.
     and_then (config ''podcast'' ''expert_2'') (\<lambda>e2.
     and_then (dict_getitem speaker_voice_mapping e2) (\<lambda>v2.
     and_then (config ''podcast'' ''expert_3'') (\<lambda>e3.
     and_then (dict_getitem speaker_voice_mapping e3) (\<lambda>v3.
       Inr \<lparr> request_url = tts_api_url @ ''?key='' @ tts_api_key,
             payload_text = ''Hello, everyone, and welcome to Mindful Machines.'',
             speaker_voice_configs =
               [(''expert_1'', v1), (''expert_2'', v2), (''expert_3'', v3)],
             payload_model = ''gemini-2.5-flash-preview-tts'' \<rparr>)))))))))))"

text \<open>
  \<open>post\<close> is the external synthesis call with what follows it in the \<open>try\<close> block.
  The result is the log records, the requests posted, and what the call returns or
  raises.
\<close>

definition generate_podcast_audio ::
  "(http_request \<Rightarrow> tts_outcome) \<Rightarrow> script \<Rightarrow> config
     \<Rightarrow> log_record list \<times> http_request list \<times> (py_exception + bool)" where
  "generate_podcast_audio post script config =
     (let log1 = [(INFO, ''Starting audio generation...'')]
      in case build_request config of
           Inl e \<Rightarrow> (log1, [], Inl e)
         | Inr request \<Rightarrow>
             (case post request of
                AudioSaved \<Rightarrow>
                  (log1 @ [(INFO, ''Audio file saved successfully to ''
                                   @ ''output/audio/podcast_episode.wav'')],
                   [request], Inr True)
              | RequestFailed m \<Rightarrow>
                  (log1 @ [(ERROR, ''Failed to generate audio: '' @ m)],
                   [request], Inr False)
              | UnexpectedFormat m \<Rightarrow>
                  (log1 @ [(ERROR, ''Unexpected API response format: '' @ m)],
                   [request], Inr False)
              | UnexpectedError m \<Rightarrow>
                  (log1 @ [(ERROR, ''An unexpected error occurred: '' @ m)],
                   [request], Inr False)))"

text \<open>
  The check the specification asks of the renderer, for comparison: every role that the
  script refers to has an entry in the voice assignment.
\<close>

definition spec_roles_mapped :: "script \<Rightarrow> (string \<rightharpoonup> string) \<Rightarrow> bool" where
  "spec_roles_mapped script assignment =
     list_all (\<lambda>turn. assignment (speaker turn) \<noteq> None) (dialogue script)"

section \<open>main.py\<close>

text \<open>
  What a run of \<open>main\<close> does, in order: the log records it emits, the stage functions
  it calls, and the script file it writes (\<open>Script_saved\<close>: the \<open>with\<close> block
  has written the content and closed the file).
\<close>

datatype event =
    Log level string
  | Call_load_config string
  | Call_scrape_papers
  | Call_rank_papers "addr list"
  | Call_select_top_paper "addr list"
  | Call_generate_podcast_script "addr list"
  | Call_makedirs string
  | Script_saved string string
  | Call_generate_podcast_audio string

text \<open>
  What each call that \<open>main\<close> makes returns or raises in a run. \<open>scrape_papers_result\<close>
  may be Python's \<open>None\<close>; \<open>strftime_result\<close> is the formatted time stamp;
  \<open>save_result\<close> is the outcome of the \<open>with\<close> block that opens the file and dumps
  the script.
\<close>

record pipeline_run =
  load_config_result :: "py_exception option"
  scrape_papers_result :: "py_exception + addr list option"
  rank_papers_result :: "py_exception + addr list"
  select_top_paper_result :: "py_exception + addr list"
  generate_podcast_script_result :: "py_exception + string"
  makedirs_result :: "py_exception option"
  strftime_result :: string
  save_result :: "py_exception option"
  generate_podcast_audio_result :: "py_exception + bool"

text \<open>
  \<open>main\<close> is one function in the source. It is written here in pieces cut at the
  step comments of the source, the innermost first; each piece takes the events so far
  and returns the events of the whole run. \<open>unhandled\<close> is the
  \<open>except Exception\<close> clause around the whole pipeline.
\<close>

definition unhandled :: "event list \<Rightarrow> py_exception \<Rightarrow> event list" where
  "unhandled tr e =
     tr @ [Log CRITICAL (''An unhandled error occurred in the pipeline: ''
                             @ str_exception e)]"

definition script_file_path :: "pipeline_run \<Rightarrow> string" where
  "script_file_path run = ''./output/scripts'' @ ''/'' @ ''script_'' @ strftime_result run @ ''.json''"

definition step5 :: "pipeline_run \<Rightarrow> event list \<Rightarrow> string \<Rightarrow> event list" where
  "step5 run tr podcast_script_content =
     (let t = tr @ [Log INFO ''Step 5: Generating the podcast audio.'',
                      Call_generate_podcast_audio podcast_script_content]
      in case generate_podcast_audio_result run of
           Inl e \<Rightarrow> unhandled t e
         | Inr ok \<Rightarrow>
             if ok
             then t @ [Log INFO ''Pipeline completed successfully! Audio file generated.'']
             else t @ [Log ERROR ''Audio generation failed. Pipeline aborted.''])"

definition step4a :: "pipeline_run \<Rightarrow> event list \<Rightarrow> string \<Rightarrow> event list" where
  "step4a run tr podcast_script_content =
     (let script_dir = ''./output/scripts'';
          t = tr @ [Call_makedirs script_dir]
      in case makedirs_result run of
           Some e \<Rightarrow> unhandled t e
         | None \<Rightarrow>
             let t' = t @ [Log INFO (''Saving script to '' @ script_file_path run)]
             in case save_result run of
                  Some e \<Rightarrow> unhandled t' e
                | None \<Rightarrow>
                    step5 run
                      (t' @ [Script_saved (script_file_path run) podcast_script_content])
                      podcast_script_content)"

definition step4 :: "pipeline_run \<Rightarrow> event list \<Rightarrow> addr list \<Rightarrow> event list" where
  "step4 run tr selected_paper =
     (let t = tr @ [Log INFO ''Step 4: Generating the podcast script.'',
                      Call_generate_podcast_script selected_paper]
      in case generate_podcast_script_result run of
           Inl e \<Rightarrow> unhandled t e
         | Inr podcast_script_content \<Rightarrow>
             if podcast_script_content = []
             then t @ [Log ERROR ''Failed to generate a podcast script. Exiting pipeline.'']
             else step4a run t podcast_script_content)"

definition step2 :: "pipeline_run \<Rightarrow> event list \<Rightarrow> addr list \<Rightarrow> event list" where
  "step2 run tr papers =
     (let t = tr @ [Log INFO (''Step 2: Ranking '' @ str_nat (length papers) @ '' papers.''),
                      Call_rank_papers papers]
      in case rank_papers_result run of
           Inl e \<Rightarrow> unhandled t e
         | Inr ranked_papers \<Rightarrow>
             let t' = t @ [Log INFO ''Step 3: Selecting the top paper.'',
                           Call_select_top_paper ranked_papers]
             in case select_top_paper_result run of
                  Inl e \<Rightarrow> unhandled t' e
                | Inr selected_paper \<Rightarrow>
                    if selected_paper = []
                    then t' @ [Log ERROR ''Could not select a top paper. Exiting pipeline.'']
                    else step4 run t' selected_paper)"

definition main :: "pipeline_run \<Rightarrow> event list" where
  "main run =
     (let t = [Log INFO ''Starting the AI podcast generation pipeline.'',
               Call_load_config ''./config/settings.ini'']
      in case load_config_result run of
           Some e \<Rightarrow> unhandled t e
         | None \<Rightarrow>
             let t' = t @ [Log INFO ''Step 1: Scraping papers from arXiv.'', Call_scrape_papers]
             in case scrape_papers_result run of
                  Inl e \<Rightarrow> unhandled t' e
                | Inr None \<Rightarrow> t' @ [Log WARNING ''No new papers found. Exiting pipeline.'']
                | Inr (Some papers) \<Rightarrow>
                    if papers = []
                    then t' @ [Log WARNING ''No new papers found. Exiting pipeline.'']
                    else step2 run t' papers)"

section \<open>Example inputs\<close>

definition example_paper :: paper where
  "example_paper =
     \<lparr> title = ''Memory networks'', authors = [''J. Doe'', ''J. Smith''],
       summary = ''This paper investigates the complex connections within the entorhinal cortex.'',
       link = ''http://arxiv.org/abs/1234.5678v1'',
       published = 0, updated = 0, score = None \<rparr>"

text \<open>
  Day 739000 after the first day of the calendar is 25 April 2024. Four dicts at
  addresses 0 to 3: the first published 10 days before that day and updated 2 days
  before it, the second published and updated 3 days before it and with a ten-character
  abstract, the third published 40 days before it, the fourth published 10 days before
  it (as the first) and updated 1 day before it.
\<close>

definition example_heap :: heap where
  "example_heap =
     (\<lambda>_. example_paper)
       (0 := example_paper\<lparr>published := (739000 - 10) * us_per_day,
                            updated := (739000 - 2) * us_per_day\<rparr>,
        1 := example_paper\<lparr>summary := ''Too short.'',
                            published := (739000 - 3) * us_per_day,
                            updated := (739000 - 3) * us_per_day\<rparr>,
        2 := example_paper\<lparr>published := (739000 - 40) * us_per_day,
                            updated := (739000 - 40) * us_per_day\<rparr>,
        3 := example_paper\<lparr>published := (739000 - 10) * us_per_day,
                            updated := (739000 - 1) * us_per_day\<rparr>)"

text \<open>
  A clock that starts at midnight of that day and advances one microsecond per reading.
\<close>

definition example_clock :: clock where
  "example_clock k = 739000 * us_per_day + int k"

definition example_mk_datetime :: "int list \<Rightarrow> py_exception + datetime" where
  "example_mk_datetime t6 = Inr 0"

definition parse_unreachable :: "string \<Rightarrow> py_exception + feed" where
  "parse_unreachable u = Inl (Exception ''connection refused'')"

definition parse_bozo :: "string \<Rightarrow> py_exception + feed" where
  "parse_bozo u = Inr \<lparr> bozo = True, entries = [] \<rparr>"

definition parse_empty_feed :: "string \<Rightarrow> py_exception + feed" where
  "parse_empty_feed u = Inr \<lparr> bozo = False, entries = [] \<rparr>"

definition example_entry :: feed_entry where
  "example_entry =
     \<lparr> entry_title = Some ''Memory networks'',
       entry_authors = Some [\<lparr> author_name = Some ''J. Doe'' \<rparr>],
       entry_summary = Some ''A study.'',
       entry_link = Some ''http://arxiv.org/abs/1234.5678v1'',
       published_parsed = Some (Some [2025, 1, 1, 12, 0, 0, 2, 1, 0]),
       updated_parsed = Some (Some [2025, 1, 2, 12, 0, 0, 3, 2, 0]) \<rparr>"

definition parse_one_entry :: "string \<Rightarrow> py_exception + feed" where
  "parse_one_entry u = Inr \<lparr> bozo = False, entries = [example_entry] \<rparr>"

definition parse_entry_without_summary :: "string \<Rightarrow> py_exception + feed" where
  "parse_entry_without_summary u =
     Inr \<lparr> bozo = False, entries = [example_entry, example_entry\<lparr>entry_summary := None\<rparr>] \<rparr>"

definition example_config :: config where
  "example_config =
     plain_config
       [''llm'' \<mapsto> [''model_path'' \<mapsto> ''models/llama-3.gguf''],
        ''api_keys'' \<mapsto> [''tts_api_key'' \<mapsto> ''KEY''],
        ''tts'' \<mapsto> [''api_url'' \<mapsto> ''https://tts.example/v1''],
        ''podcast'' \<mapsto> [''expert_1'' \<mapsto> ''ML Expert'', ''expert_2'' \<mapsto> ''Neuroscientist'',
                       ''expert_3'' \<mapsto> ''Psychologist'']]"

text \<open>
  The same configuration with the value \<open>ab%cd\<close> for the option \<open>api_url\<close>, which
  the parser cannot expand, and a configuration without any section.
\<close>

definition config_with_percent :: config where
  "config_with_percent section option =
     (if section = ''tts'' \<and> option = ''api_url''
      then Inl (InterpolationSyntaxError
                  (apos @ ''%'' @ apos @ '' must be followed by '' @ apos @ ''%'' @ apos
                   @ '' or '' @ apos @ ''('' @ apos @ '', found: '' @ apos @ ''%cd'' @ apos))
      else example_config section option)"

definition empty_config :: config where
  "empty_config = plain_config Map.empty"

text \<open>
  A service whose model cannot be loaded, and one whose temporary file cannot be
  removed.
\<close>

definition llm_no_model :: llm_service where
  "llm_no_model =
     \<lparr> load_model = (\<lambda>_. Some (Exception ''model file not found'')),
       run_query = (\<lambda>_ _. Inr ''lorem ipsum''), cleanup = None \<rparr>"

definition llm_cleanup_fails :: llm_service where
  "llm_cleanup_fails =
     \<lparr> load_model = (\<lambda>_. None), run_query = (\<lambda>_ _. Inr ''lorem ipsum''),
       cleanup = Some (OSError ''permission denied'') \<rparr>"

text \<open>
  Three services: one whose query times out, one that answers with text that names no
  speaker, one that answers with the empty text.
\<close>

definition llm_timeout :: llm_service where
  "llm_timeout =
     \<lparr> load_model = (\<lambda>_. None), run_query = (\<lambda>_ _. Inl (Exception ''timed out'')),
       cleanup = None \<rparr>"

definition llm_unparsable :: llm_service where
  "llm_unparsable =
     \<lparr> load_model = (\<lambda>_. None), run_query = (\<lambda>_ _. Inr ''lorem ipsum''),
       cleanup = None \<rparr>"

definition llm_empty :: llm_service where
  "llm_empty =
     \<lparr> load_model = (\<lambda>_. None), run_query = (\<lambda>_ _. Inr []), cleanup = None \<rparr>"

text \<open>A script whose second turn is spoken by a role that has no voice.\<close>

definition example_script :: script where
  "example_script =
     \<lparr> script_title = ''A new paper on memory networks'',
       dialogue =
         [\<lparr> speaker = ''ML Expert'', utterance = ''This new paper proposes a novel architecture.'' \<rparr>,
          \<lparr> speaker = ''Narrator'', utterance = ''Stay tuned.'' \<rparr>] \<rparr>"

definition example_assignment :: "string \<rightharpoonup> string" where
  "example_assignment =
     [''ML Expert'' \<mapsto> ''Zephyr'', ''Neuroscientist'' \<mapsto> ''Puck'', ''Psychologist'' \<mapsto> ''Kore'']"

definition example_request :: http_request where
  "example_request =
     \<lparr> request_url = ''https://tts.example/v1?key=KEY'',
       payload_text = ''Hello, everyone, and welcome to Mindful Machines.'',
       speaker_voice_configs =
         [(''expert_1'', ''Zephyr''), (''expert_2'', ''Puck''), (''expert_3'', ''Kore'')],
       payload_model = ''gemini-2.5-flash-preview-tts'' \<rparr>"

definition post_ok :: "http_request \<Rightarrow> tts_outcome" where
  "post_ok request = AudioSaved"

text \<open>A run in which every stage succeeds, and one in which only the rendering fails.\<close>

definition run_complete :: pipeline_run where
  "run_complete =
     \<lparr> load_config_result = None,
       scrape_papers_result = Inr (Some [0, 1]),
       rank_papers_result = Inr [1, 0],
       select_top_paper_result = Inr [1],
       generate_podcast_script_result = Inr ''ML Expert: Hello.'',
       makedirs_result = None,
       strftime_result = ''2025-01-01_12-00-00'',
       save_result = None,
       generate_podcast_audio_result = Inr True \<rparr>"

definition run_render_fails :: pipeline_run where
  "run_render_fails = run_complete\<lparr>generate_podcast_audio_result := Inr False\<rparr>"

section \<open>The candidate source\<close>

lemma fetch_recent_papers_cases:
  "fetch_recent_papers parse mk_datetime query max_results sort_by =
     (case parse (search_url query max_results sort_by) of
        Inl e \<Rightarrow>
          ([''Fetching papers with query: '' @ query @ ''...'',
            ''An error occurred: '' @ str_exception e], Inr [])
      | Inr response \<Rightarrow>
          if bozo response then
            ([''Fetching papers with query: '' @ query @ ''...'',
              ''An error occurred: Failed to parse feed. Is the arXiv API reachable?''], Inr [])
          else
            (case entries_loop mk_datetime (entries response) [] of
               Inl e \<Rightarrow>
                 ([''Fetching papers with query: '' @ query @ ''...'',
                   ''An error occurred: '' @ str_exception e], Inr [])
             | Inr papers \<Rightarrow>
                 ([''Fetching papers with query: '' @ query @ ''...''], Inr papers)))"
  by (simp add: fetch_recent_papers_def and_then_def Let_def split: sum.splits)

lemma fetch_recent_papers_examples:
  "fetch_recent_papers parse_one_entry example_mk_datetime ''LLMs'' 10 ''relevance'' =
     ([''Fetching papers with query: LLMs...''],
      Inr [\<lparr> title = ''Memory networks'', authors = [''J. Doe''], summary = ''A study.'',
             link = ''http://arxiv.org/abs/1234.5678v1'',
             published = 0, updated = 0, score = None \<rparr>])"
  "fetch_recent_papers parse_entry_without_summary example_mk_datetime ''LLMs'' 10 ''relevance'' =
     ([''Fetching papers with query: LLMs...'',
       ''An error occurred: object has no attribute '' @ apos @ ''summary'' @ apos],
      Inr [])"
  by (simp_all add: fetch_recent_papers_cases parse_one_entry_def
      parse_entry_without_summary_def example_entry_def example_mk_datetime_def
      paper_details_def parsed_datetime_def getattr_def and_then_def)

text \<open>
  Claim C6, as amended. For every query, limit and sort order, \<open>fetch_recent_papers\<close>
  raises nothing, whatever the feed parser does; when the parser raises, when the feed is
  flagged as malformed (\<open>bozo\<close>) or when an entry cannot be converted, it prints
  \<open>An error occurred: ...\<close> and returns the empty list. The caller gets the value it
  gets for a feed without entries: no separate condition is signalled to it.
\<close>

theorem fetch_recent_papers_never_raises:
  "(\<exists>papers. snd (fetch_recent_papers parse mk_datetime query max_results sort_by) = Inr papers)
   \<and> (parse (search_url query max_results sort_by) = Inl e \<longrightarrow>
        fetch_recent_papers parse mk_datetime query max_results sort_by =
          ([''Fetching papers with query: '' @ query @ ''...'',
            ''An error occurred: '' @ str_exception e], Inr []))
   \<and> (parse (search_url query max_results sort_by) = Inr response \<and> bozo response \<longrightarrow>
        fetch_recent_papers parse mk_datetime query max_results sort_by =
          ([''Fetching papers with query: '' @ query @ ''...'',
            ''An error occurred: Failed to parse feed. Is the arXiv API reachable?''], Inr []))
   \<and> (parse (search_url query max_results sort_by) = Inr response \<and> \<not> bozo response
       \<and> entries_loop mk_datetime (entries response) [] = Inl e \<longrightarrow>
        fetch_recent_papers parse mk_datetime query max_results sort_by =
          ([''Fetching papers with query: '' @ query @ ''...'',
            ''An error occurred: '' @ str_exception e], Inr []))
   \<and> (parse (search_url query max_results sort_by) = Inr \<lparr> bozo = False, entries = [] \<rparr> \<longrightarrow>
        snd (fetch_recent_papers parse mk_datetime query max_results sort_by) = Inr [])"
  by (simp add: fetch_recent_papers_cases split: sum.splits)

theorem fetch_recent_papers_never_raises_witness:
  "parse_unreachable (search_url ''LLMs'' 10 ''relevance'') = Inl (Exception ''connection refused'')
   \<and> fetch_recent_papers parse_unreachable example_mk_datetime ''LLMs'' 10 ''relevance'' =
       ([''Fetching papers with query: LLMs...'',
         ''An error occurred: connection refused''], Inr [])"
proof -
  have p: "parse_unreachable (search_url ''LLMs'' 10 ''relevance'')
             = Inl (Exception ''connection refused'')"
    by (simp add: parse_unreachable_def)
  from fetch_recent_papers_never_raises
         [of parse_unreachable example_mk_datetime "''LLMs''" 10 "''relevance''"
             "Exception ''connection refused''"] p
  show ?thesis by simp
qed

theorem fetch_recent_papers_no_signal_counterexample:
  "snd (fetch_recent_papers parse_unreachable example_mk_datetime ''LLMs'' 10 ''relevance'')
     = Inr []
   \<and> snd (fetch_recent_papers parse_bozo example_mk_datetime ''LLMs'' 10 ''relevance'')
     = Inr []
   \<and> snd (fetch_recent_papers parse_empty_feed example_mk_datetime ''LLMs'' 10 ''relevance'')
     = Inr []"
  by (simp add: fetch_recent_papers_cases parse_unreachable_def parse_bozo_def
      parse_empty_feed_def)


section \<open>The time-window filter\<close>

lemma filter_papers_by_timeframe_cutoff:
  assumes "\<bar>days\<bar> \<le> 999999999"
    and "min_datetime \<le> now 0 - days * us_per_day"
    and "now 0 - days * us_per_day \<le> max_datetime"
  shows "filter_papers_by_timeframe now h papers days =
           ([''Filtered to ''
               @ str_nat (length (filter (\<lambda>p. published (h p) > now 0 - days * us_per_day
                                             \<or> updated (h p) > now 0 - days * us_per_day) papers))
               @ '' papers published in the last '' @ str_int days @ '' days.''],
            Inr (filter (\<lambda>p. published (h p) > now 0 - days * us_per_day
                            \<or> updated (h p) > now 0 - days * us_per_day) papers))"
  using assms
  by (simp add: filter_papers_by_timeframe_def timedelta_of_days_def datetime_minus_def
      and_then_def Let_def)

lemma filter_papers_by_timeframe_overflow:
  assumes "\<not> (\<bar>days\<bar> \<le> 999999999 \<and> min_datetime \<le> now 0 - days * us_per_day
              \<and> now 0 - days * us_per_day \<le> max_datetime)"
  shows "\<exists>m. filter_papers_by_timeframe now h papers days = ([], Inl (OverflowError m))"
  using assms
  by (auto simp add: filter_papers_by_timeframe_def timedelta_of_days_def datetime_minus_def
      and_then_def)

text \<open>
  Claim C2, as amended. For every list of papers and every window of \<open>days\<close> days
  whose cutoff \<open>now - window\<close> the library can represent (at most 999999999 days, and
  a cutoff between the years 1 and 9999), \<open>filter_papers_by_timeframe\<close> returns exactly
  the papers with \<open>published > now - window\<close> or \<open>updated > now - window\<close>: the result
  is a subsequence of the input (same objects, same relative order), a paper of the input
  is in the result if and only if it satisfies the condition, and the empty list gives
  the empty list. The clock is read once (only its first reading matters). For every
  other window the call raises \<open>OverflowError\<close> and returns nothing, whatever the list.
\<close>

theorem filter_papers_by_timeframe_in_range:
  "(\<bar>days\<bar> \<le> 999999999 \<and> min_datetime \<le> now 0 - days * us_per_day
      \<and> now 0 - days * us_per_day \<le> max_datetime \<longrightarrow>
      (\<exists>out. snd (filter_papers_by_timeframe now h papers days) = Inr out
         \<and> out = filter (\<lambda>p. published (h p) > now 0 - days * us_per_day
                            \<or> updated (h p) > now 0 - days * us_per_day) papers
         \<and> subseq out papers
         \<and> (\<forall>p. p \<in> set out \<longleftrightarrow>
                p \<in> set papers \<and> (published (h p) > now 0 - days * us_per_day
                                   \<or> updated (h p) > now 0 - days * us_per_day)))
      \<and> snd (filter_papers_by_timeframe now h [] days) = Inr [])
   \<and> filter_papers_by_timeframe now h papers days =
       filter_papers_by_timeframe (\<lambda>_. now 0) h papers days
   \<and> (\<not> (\<bar>days\<bar> \<le> 999999999 \<and> min_datetime \<le> now 0 - days * us_per_day
           \<and> now 0 - days * us_per_day \<le> max_datetime) \<longrightarrow>
      (\<exists>m. filter_papers_by_timeframe now h papers days = ([], Inl (OverflowError m))))"
proof (intro conjI impI)
  assume r: "\<bar>days\<bar> \<le> 999999999 \<and> min_datetime \<le> now 0 - days * us_per_day
             \<and> now 0 - days * us_per_day \<le> max_datetime"
  then have "snd (filter_papers_by_timeframe now h papers days) =
          Inr (filter (\<lambda>p. published (h p) > now 0 - days * us_per_day
                          \<or> updated (h p) > now 0 - days * us_per_day) papers)"
    by (simp add: filter_papers_by_timeframe_cutoff)
  then show "\<exists>out. snd (filter_papers_by_timeframe now h papers days) = Inr out
         \<and> out = filter (\<lambda>p. published (h p) > now 0 - days * us_per_day
                            \<or> updated (h p) > now 0 - days * us_per_day) papers
         \<and> subseq out papers
         \<and> (\<forall>p. p \<in> set out \<longleftrightarrow>
                p \<in> set papers \<and> (published (h p) > now 0 - days * us_per_day
                                   \<or> updated (h p) > now 0 - days * us_per_day))"
    by auto
  from r show "snd (filter_papers_by_timeframe now h [] days) = Inr []"
    by (simp add: filter_papers_by_timeframe_cutoff)
next
  show "filter_papers_by_timeframe now h papers days =
        filter_papers_by_timeframe (\<lambda>_. now 0) h papers days"
    by (simp add: filter_papers_by_timeframe_def)
next
  assume "\<not> (\<bar>days\<bar> \<le> 999999999 \<and> min_datetime \<le> now 0 - days * us_per_day
           \<and> now 0 - days * us_per_day \<le> max_datetime)"
  then show "\<exists>m. filter_papers_by_timeframe now h papers days = ([], Inl (OverflowError m))"
    by (rule filter_papers_by_timeframe_overflow)
qed

theorem filter_papers_by_timeframe_in_range_witness:
  "\<bar>7::int\<bar> \<le> 999999999
   \<and> min_datetime \<le> example_clock 0 - 7 * us_per_day
   \<and> example_clock 0 - 7 * us_per_day \<le> max_datetime
   \<and> snd (filter_papers_by_timeframe example_clock example_heap [0, 1, 2] 7) = Inr [0, 1]
   \<and> fst (filter_papers_by_timeframe example_clock example_heap [0, 1, 2] 7) =
       [''Filtered to 2 papers published in the last 7 days.'']
   \<and> snd (filter_papers_by_timeframe example_clock example_heap [] 7) = Inr []"
proof -
  have r: "\<bar>7::int\<bar> \<le> 999999999 \<and> min_datetime \<le> example_clock 0 - 7 * us_per_day
           \<and> example_clock 0 - 7 * us_per_day \<le> max_datetime"
    by (simp add: example_clock_def min_datetime_def max_datetime_def us_per_day_def)
  have f: "filter (\<lambda>p. published (example_heap p) > example_clock 0 - 7 * us_per_day
                     \<or> updated (example_heap p) > example_clock 0 - 7 * us_per_day) [0, 1, 2]
           = [0, 1]"
    by (simp add: example_heap_def example_clock_def example_paper_def us_per_day_def)
  have p: "fst (filter_papers_by_timeframe example_clock example_heap [0, 1, 2] 7) =
       [''Filtered to 2 papers published in the last 7 days.'']"
    unfolding filter_papers_by_timeframe_cutoff
                [of 7 example_clock example_heap "[0, 1, 2]",
                 OF conjunct1 [OF r] conjunct1 [OF conjunct2 [OF r]]
                    conjunct2 [OF conjunct2 [OF r]]] f
    by (simp add: str_int_def digit_def str_nat.simps)
  from filter_papers_by_timeframe_in_range [of 7 example_clock example_heap "[0, 1, 2]"] r
  obtain out where
    o: "snd (filter_papers_by_timeframe example_clock example_heap [0, 1, 2] 7) = Inr out"
       "out = filter (\<lambda>p. published (example_heap p) > example_clock 0 - 7 * us_per_day
                          \<or> updated (example_heap p) > example_clock 0 - 7 * us_per_day)
                [0, 1, 2]"
    and e: "snd (filter_papers_by_timeframe example_clock example_heap [] 7) = Inr []"
    by blast
  from o f have "snd (filter_papers_by_timeframe example_clock example_heap [0, 1, 2] 7)
                   = Inr [0, 1]"
    by simp
  with r p e show ?thesis by blast
qed

theorem filter_papers_by_timeframe_overflow_counterexample:
  "filter_papers_by_timeframe example_clock example_heap [] 800000 =
     ([], Inl (OverflowError ''date value out of range''))
   \<and> filter_papers_by_timeframe example_clock example_heap [0, 1, 2] 1000000000 =
     ([], Inl (OverflowError ''days=1000000000; must have magnitude <= 999999999''))"
  by (simp add: filter_papers_by_timeframe_def timedelta_of_days_def datetime_minus_def
      and_then_def example_clock_def min_datetime_def max_datetime_def us_per_day_def
      str_int_def digit_def str_nat.simps)

section \<open>The ranker\<close>

subsection \<open>The sort\<close>

lemma py_sorted_reverse_mset: "mset (py_sorted_reverse key xs) = mset xs"
  by (simp add: py_sorted_reverse_def)

lemma py_sorted_reverse_sorted:
  "sorted_wrt (\<lambda>a b. key a \<ge> key b) (py_sorted_reverse key xs)"
proof -
  have "sorted (map key (sort_key key (rev xs)))" by simp
  then have "sorted_wrt (\<lambda>a b. key a \<le> key b) (sort_key key (rev xs))"
    by (simp add: sorted_wrt_map)
  then show ?thesis
    by (simp add: py_sorted_reverse_def sorted_wrt_rev)
qed

lemma py_sorted_reverse_stable:
  "filter (\<lambda>y. key y = k) (py_sorted_reverse key xs) = filter (\<lambda>y. key y = k) xs"
  by (simp add: py_sorted_reverse_def rev_filter [symmetric] sort_key_stable)

subsection \<open>The scoring loop\<close>

lemma score_loop_list: "snd (score_loop now k ps (h, sc)) = sc @ ps"
  by (induction ps arbitrary: k h sc) (simp_all add: Let_def)

lemma score_loop_frame: "a \<notin> set ps \<Longrightarrow> fst (score_loop now k ps (h, sc)) a = h a"
  by (induction ps arbitrary: k h sc) (simp_all add: Let_def)

text \<open>The loop changes no key of a dict but \<open>score\<close>.\<close>

lemma score_loop_fields:
  "fst (score_loop now k ps (h, sc)) a =
     (h a)\<lparr>score := score (fst (score_loop now k ps (h, sc)) a)\<rparr>"
proof (induction ps arbitrary: k h sc)
  case Nil
  then show ?case by simp
next
  case (Cons p ps)
  let ?h1 = "h(p := (h p)\<lparr>score := Some (0 + max 0 (30 - td_days (now k - published (h p))))\<rparr>)"
  have "fst (score_loop now (Suc k) ps (?h1, sc @ [p])) a =
        (?h1 a)\<lparr>score := score (fst (score_loop now (Suc k) ps (?h1, sc @ [p])) a)\<rparr>"
    by (rule Cons.IH)
  then show ?case
    by (cases "a = p") (simp_all add: Let_def)
qed

text \<open>
  A dict of the list ends with the score computed at one of its positions in the list
  (the last one, when the same object occurs several times), from the clock reading of
  that iteration.
\<close>

lemma score_loop_scored:
  "a \<in> set ps \<Longrightarrow>
   \<exists>j < length ps. ps ! j = a \<and>
     score (fst (score_loop now k ps (h, sc)) a) =
       Some (max 0 (30 - td_days (now (k + j) - published (h a))))"
proof (induction ps arbitrary: k h sc)
  case Nil
  then show ?case by simp
next
  case (Cons p ps)
  let ?h1 = "h(p := (h p)\<lparr>score := Some (0 + max 0 (30 - td_days (now k - published (h p))))\<rparr>)"
  have pub: "published (?h1 a) = published (h a)" by simp
  show ?case
  proof (cases "a \<in> set ps")
    case True
    from Cons.IH [OF True, of "Suc k" ?h1 "sc @ [p]"] obtain j where
      j: "j < length ps" "ps ! j = a"
         "score (fst (score_loop now (Suc k) ps (?h1, sc @ [p])) a) =
            Some (max 0 (30 - td_days (now (Suc k + j) - published (?h1 a))))"
      by blast
    show ?thesis
      by (rule exI [of _ "Suc j"]) (use j pub in \<open>simp add: Let_def\<close>)
  next
    case False
    with Cons.prems have ap: "a = p" by simp
    have "fst (score_loop now (Suc k) ps (?h1, sc @ [p])) a = ?h1 a"
      using False by (rule score_loop_frame)
    then show ?thesis
      by (intro exI [of _ 0]) (simp add: ap Let_def)
  qed
qed

lemma score_loop_all_scored:
  "list_all (\<lambda>p. score (fst (score_loop now k ps (h, sc)) p) \<noteq> None) ps"
proof -
  have "score (fst (score_loop now k ps (h, sc)) p) \<noteq> None" if "p \<in> set ps" for p
    using score_loop_scored [OF that, of now k h sc] by auto
  then show ?thesis by (simp add: list_all_iff)
qed

subsection \<open>rank_papers where the name datetime is bound\<close>

lemma rank_papers_main:
  assumes "papers \<noteq> []"
  shows "rank_papers ''__main__'' now h papers ''simple'' =
           ([(INFO, ''Ranking '' @ str_nat (length papers) @ '' papers using the ''
                @ apos @ ''simple'' @ apos @ '' strategy.'')],
            fst (score_loop now 0 papers (h, [])),
            Inr (py_sorted_reverse
                  (\<lambda>p. the (score (fst (score_loop now 0 papers (h, [])) p))) papers))"
proof -
  obtain h' sc where hs: "score_loop now 0 papers (h, []) = (h', sc)"
    by (cases "score_loop now 0 papers (h, [])")
  have sc: "sc = papers"
    using score_loop_list [of now 0 papers h "[]"] hs by simp
  have "list_all (\<lambda>p. score (h' p) \<noteq> None) papers"
    using score_loop_all_scored [of now 0 papers h "[]"] hs by simp
  then show ?thesis
    using assms by (simp add: rank_papers_def hs sc sorted_by_score_def)
qed

text \<open>A call with the strategy \<open>simple\<close> that returns a list ran as the script does.\<close>

lemma rank_papers_returns:
  assumes "snd (snd (rank_papers m now h papers ''simple'')) = Inr ranked"
  shows "rank_papers m now h papers ''simple'' =
         rank_papers ''__main__'' now h papers ''simple''"
  using assms by (auto simp add: rank_papers_def Let_def split: if_splits)

text \<open>
  Run as a script, \<open>rank_papers\<close> gives every dict of the list the score
  \<open>max(0, 30 - age_in_days)\<close>, never negative, and returns a permutation of the list,
  having changed no key but \<open>score\<close>.
\<close>

lemma rank_papers_main_scores:
  fixes now :: clock and h :: heap
  assumes "p \<in> set papers"
  defines "h' \<equiv> fst (snd (rank_papers ''__main__'' now h papers ''simple''))"
  shows "\<exists>j < length papers. papers ! j = p \<and>
           score (h' p) = Some (max 0 (30 - td_days (now j - published (h p))))"
    and "0 \<le> the (score (h' p))"
proof -
  from assms(1) have ne: "papers \<noteq> []" by auto
  have h': "h' = fst (score_loop now 0 papers (h, []))"
    unfolding h'_def by (simp add: rank_papers_main [OF ne])
  from score_loop_scored [OF assms(1), of now 0 h "[]"]
  show *: "\<exists>j < length papers. papers ! j = p \<and>
           score (h' p) = Some (max 0 (30 - td_days (now j - published (h p))))"
    unfolding h' by simp
  then show "0 \<le> the (score (h' p))" by auto
qed

lemma rank_papers_main_permutation:
  assumes "papers \<noteq> []"
  shows "\<exists>ranked. snd (snd (rank_papers ''__main__'' now h papers ''simple'')) = Inr ranked
           \<and> mset ranked = mset papers"
    and "fst (snd (rank_papers ''__main__'' now h papers ''simple'')) a =
           (h a)\<lparr>score := score (fst (snd (rank_papers ''__main__'' now h papers ''simple'')) a)\<rparr>"
    and "a \<notin> set papers \<Longrightarrow>
           fst (snd (rank_papers ''__main__'' now h papers ''simple'')) a = h a"
  using assms
  by (simp_all add: rank_papers_main py_sorted_reverse_mset score_loop_fields [symmetric]
      score_loop_frame)

lemma simple_score_examples:
  "max 0 (30 - td_days (now - (now - 0 * us_per_day))) = 30"
  "max 0 (30 - td_days (now - (now - 30 * us_per_day))) = 0"
  "max 0 (30 - td_days (now - (now - 45 * us_per_day))) = 0"
  by (simp_all add: td_days_def us_per_day_def)

lemmas example_simps =
  rank_papers_def example_clock_def example_heap_def example_paper_def Let_def
  td_days_def us_per_day_def sorted_by_score_def py_sorted_reverse_def digit_def apos_def
  str_nat.simps

subsection \<open>Claims about rank_papers\<close>


text \<open>
  Claim C1. For every paper, \<open>rank_papers\<close> with the strategy \<open>simple\<close> assigns the
  score \<open>max(0, 30 - age_in_days)\<close>, never negative. Imported as a module, as
  \<open>main.py\<close> imports it, \<open>rank_papers\<close> raises \<open>NameError\<close> in the first iteration of
  the loop instead: it returns no list and assigns no score.
\<close>

theorem rank_papers_imported_assigns_no_score:
  "rank_papers ''paper_ranker'' example_clock example_heap [0, 1, 2] ''simple'' =
     ([(INFO, ''Ranking 3 papers using the '' @ apos @ ''simple'' @ apos @ '' strategy.'')],
      example_heap,
      Inl (NameError (''name '' @ apos @ ''datetime'' @ apos @ '' is not defined'')))
   \<and> score (example_heap 0) = None
   \<and> score (example_heap 1) = None
   \<and> score (example_heap 2) = None"
  by (simp add: rank_papers_def digit_def str_nat.simps example_heap_def example_paper_def)

text \<open>
  Claim C10. For every non-empty list, \<open>rank_papers\<close> with the strategy \<open>simple\<close>
  returns a permutation of the list. Imported as a module, it returns no list on a
  non-empty input: the call ends in \<open>NameError\<close>.
\<close>

theorem rank_papers_imported_returns_no_list:
  "snd (snd (rank_papers ''paper_ranker'' example_clock example_heap [3, 0] ''simple'')) =
     Inl (NameError (''name '' @ apos @ ''datetime'' @ apos @ '' is not defined''))
   \<and> snd (snd (rank_papers ''__main__'' example_clock example_heap [3, 0] ''simple'')) =
     Inr [3, 0]"
  by (simp add: example_simps)

text \<open>
  Claim C4, as amended. Whenever \<open>rank_papers\<close> with the strategy \<open>simple\<close> returns a
  list, every paper of it has a score, the scores are non-increasing along the list,
  and the papers of equal score stand in the order they had in the input.
\<close>

theorem rank_papers_simple_order:
  assumes "snd (snd (rank_papers m now h papers ''simple'')) = Inr ranked"
  shows "list_all (\<lambda>p. score (fst (snd (rank_papers m now h papers ''simple'')) p) \<noteq> None) ranked
       \<and> sorted_wrt (\<lambda>a b. the (score (fst (snd (rank_papers m now h papers ''simple'')) a))
                         \<ge> the (score (fst (snd (rank_papers m now h papers ''simple'')) b))) ranked
       \<and> filter (\<lambda>p. the (score (fst (snd (rank_papers m now h papers ''simple'')) p)) = s) ranked
         = filter (\<lambda>p. the (score (fst (snd (rank_papers m now h papers ''simple'')) p)) = s) papers"
proof (cases "papers = []")
  case True
  with assms show ?thesis by (simp add: rank_papers_def)
next
  case False
  let ?h' = "fst (score_loop now 0 papers (h, []))"
  have eq: "rank_papers m now h papers ''simple'' =
            rank_papers ''__main__'' now h papers ''simple''"
    using assms by (rule rank_papers_returns)
  have ranked: "ranked = py_sorted_reverse (\<lambda>p. the (score (?h' p))) papers"
    using assms unfolding eq by (simp add: rank_papers_main [OF False])
  have h': "fst (snd (rank_papers m now h papers ''simple'')) = ?h'"
    unfolding eq by (simp add: rank_papers_main [OF False])
  have "set ranked = set papers"
    using py_sorted_reverse_mset [of "\<lambda>p. the (score (?h' p))" papers]
    unfolding ranked by (rule mset_eq_setD)
  moreover have "list_all (\<lambda>p. score (?h' p) \<noteq> None) papers"
    by (rule score_loop_all_scored)
  ultimately have "list_all (\<lambda>p. score (?h' p) \<noteq> None) ranked"
    by (simp add: list_all_iff)
  then show ?thesis
    unfolding h' ranked
    by (simp add: py_sorted_reverse_sorted py_sorted_reverse_stable)
qed

theorem rank_papers_simple_order_witness:
  "snd (snd (rank_papers ''__main__'' example_clock example_heap [2, 0, 1, 3] ''simple'')) =
     Inr [1, 0, 3, 2]
   \<and> map (\<lambda>p. score (fst (snd (rank_papers ''__main__'' example_clock example_heap
                                  [2, 0, 1, 3] ''simple'')) p)) [1, 0, 3, 2] =
       [Some 27, Some 20, Some 20, Some 0]
   \<and> filter (\<lambda>p. the (score (fst (snd (rank_papers ''__main__'' example_clock example_heap
                                  [2, 0, 1, 3] ''simple'')) p)) = 20) [1, 0, 3, 2] = [0, 3]"
proof -
  have r: "snd (snd (rank_papers ''__main__'' example_clock example_heap [2, 0, 1, 3] ''simple''))
             = Inr [1, 0, 3, 2]"
    by (simp add: example_simps)
  have s: "map (\<lambda>p. score (fst (snd (rank_papers ''__main__'' example_clock example_heap
                                  [2, 0, 1, 3] ''simple'')) p)) [1, 0, 3, 2] =
       [Some 27, Some 20, Some 20, Some 0]"
    by (simp add: example_simps)
  from rank_papers_simple_order [OF r, of 20] r s show ?thesis
    by simp
qed

theorem rank_papers_tie_counterexample:
  "snd (snd (rank_papers ''__main__'' example_clock example_heap [0, 3] ''simple'')) = Inr [0, 3]
   \<and> score (fst (snd (rank_papers ''__main__'' example_clock example_heap [0, 3] ''simple'')) 0)
       = Some 20
   \<and> score (fst (snd (rank_papers ''__main__'' example_clock example_heap [0, 3] ''simple'')) 3)
       = Some 20
   \<and> updated (fst (snd (rank_papers ''__main__'' example_clock example_heap [0, 3] ''simple'')) 0)
       < updated (fst (snd (rank_papers ''__main__'' example_clock example_heap [0, 3] ''simple'')) 3)"
  by (simp add: example_simps)

text \<open>
  Claim C5, as amended. With a strategy other than \<open>simple\<close>, \<open>rank_papers\<close> returns
  normally: on a non-empty list it logs an ERROR record naming the strategy and returns
  the input list itself, unscored and in input order; on the empty list it logs only the
  warning and returns the empty list. It raises nothing and does not run the \<open>simple\<close>
  scoring.
\<close>

theorem rank_papers_unknown_strategy:
  assumes "ranking_strategy \<noteq> ''simple''"
  shows "rank_papers m now h papers ranking_strategy =
     (if papers = [] then ([(WARNING, ''No papers provided to rank.'')], h, Inr [])
      else ([(INFO, ''Ranking '' @ str_nat (length papers) @ '' papers using the ''
                @ apos @ ranking_strategy @ apos @ '' strategy.''),
             (ERROR, ''Unknown ranking strategy: '' @ ranking_strategy)],
            h, Inr papers))"
  using assms by (simp add: rank_papers_def)

theorem rank_papers_unknown_strategy_witness:
  "''bogus'' \<noteq> ''simple''
   \<and> rank_papers ''__main__'' example_clock example_heap [2, 0] ''bogus'' =
       ([(INFO, ''Ranking 2 papers using the '' @ apos @ ''bogus'' @ apos @ '' strategy.''),
         (ERROR, ''Unknown ranking strategy: bogus'')],
        example_heap, Inr [2, 0])"
proof -
  have ne: "''bogus'' \<noteq> ''simple''" by simp
  from rank_papers_unknown_strategy [OF ne, of "''__main__''" example_clock example_heap "[2, 0]"]
  show ?thesis by (simp add: digit_def str_nat.simps)
qed

theorem rank_papers_unknown_strategy_counterexample:
  "rank_papers ''__main__'' example_clock example_heap [] ''bogus'' =
     ([(WARNING, ''No papers provided to rank.'')], example_heap, Inr [])
   \<and> rank_papers ''__main__'' example_clock example_heap [] ''bogus'' =
     rank_papers ''__main__'' example_clock example_heap [] ''simple''
   \<and> snd (snd (rank_papers ''__main__'' example_clock example_heap [2, 0] ''bogus'')) =
     Inr [2, 0]"
  by (simp add: rank_papers_def)

section \<open>The selector\<close>

text \<open>
  Claim C3, as amended. For every ranked list and every positive \<open>top_n\<close>,
  \<open>select_top_paper\<close> returns the first \<open>top_n\<close> entries of the list (the whole list
  when it is shorter), whatever the length of their abstracts: it takes no minimum
  abstract length and skips nothing.
\<close>

theorem select_top_paper_prefix:
  assumes "0 < top_n"
  shows "snd (select_top_paper ranked_papers top_n) = take (nat top_n) ranked_papers"
  using assms by (simp add: select_top_paper_def slice_upto_def)

theorem select_top_paper_prefix_witness:
  "(0::int) < 1 \<and> snd (select_top_paper [1, 0, 3, 2] 1) = [1]"
  using select_top_paper_prefix [of 1 "[1, 0, 3, 2]"] by simp

theorem select_top_paper_counterexample:
  "snd (select_top_paper [1, 0, 3, 2] 1) = [1]
   \<and> length (summary (example_heap 1)) = 10
   \<and> spec_select example_heap [1, 0, 3, 2] 1 50 = [0]"
  by (simp add: select_top_paper_def slice_upto_def spec_select_def example_heap_def
      example_paper_def)

section \<open>The script synthesizer\<close>

text \<open>
  Claim C7, as amended. When the model is loaded and the body of the \<open>try\<close> block
  raises (a service error or a timeout), \<open>generate_podcast_script\<close> logs an ERROR record
  and returns the empty string, which is its failure value; when the service returns a
  text, the function returns that raw text as it is, neither parsed into turns nor
  checked. An exception of the configuration lookup, of the model construction or of the
  cleanup leaves the function and reaches the caller.
\<close>

theorem generate_podcast_script_outcomes:
  "(config ''llm'' ''model_path'' = Inl e \<longrightarrow>
      generate_podcast_script llm paper config =
        ([(INFO, ''Generating podcast script for paper: '' @ apos @ title paper @ apos)],
         Inl e))
   \<and> (config ''llm'' ''model_path'' = Inr model_path
        \<and> load_model llm model_path = Some e \<longrightarrow>
      generate_podcast_script llm paper config =
        ([(INFO, ''Generating podcast script for paper: '' @ apos @ title paper @ apos)],
         Inl e))
   \<and> (config ''llm'' ''model_path'' = Inr model_path
        \<and> load_model llm model_path = None \<and> cleanup llm = Some e' \<longrightarrow>
      snd (generate_podcast_script llm paper config) = Inl e')
   \<and> (config ''llm'' ''model_path'' = Inr model_path
        \<and> load_model llm model_path = None \<and> cleanup llm = None
        \<and> run_query llm (text_content paper) script_prompt = Inl e \<longrightarrow>
      generate_podcast_script llm paper config =
        ([(INFO, ''Generating podcast script for paper: '' @ apos @ title paper @ apos),
          (ERROR, ''Failed to generate podcast script: '' @ str_exception e)],
         Inr []))
   \<and> (config ''llm'' ''model_path'' = Inr model_path
        \<and> load_model llm model_path = None \<and> cleanup llm = None
        \<and> run_query llm (text_content paper) script_prompt = Inr generated_text \<longrightarrow>
      generate_podcast_script llm paper config =
        ([(INFO, ''Generating podcast script for paper: '' @ apos @ title paper @ apos)],
         Inr generated_text))"
  by (simp add: generate_podcast_script_def Let_def split: sum.splits)

theorem generate_podcast_script_outcomes_witness:
  "generate_podcast_script llm_timeout example_paper example_config =
     ([(INFO, ''Generating podcast script for paper: '' @ apos @ ''Memory networks'' @ apos),
       (ERROR, ''Failed to generate podcast script: timed out'')],
      Inr [])
   \<and> generate_podcast_script llm_unparsable example_paper example_config =
     ([(INFO, ''Generating podcast script for paper: '' @ apos @ ''Memory networks'' @ apos)],
      Inr ''lorem ipsum'')
   \<and> snd (generate_podcast_script llm_unparsable example_paper empty_config) =
     Inl (NoSectionError ''llm'')
   \<and> snd (generate_podcast_script llm_no_model example_paper example_config) =
     Inl (Exception ''model file not found'')
   \<and> snd (generate_podcast_script llm_cleanup_fails example_paper example_config) =
     Inl (OSError ''permission denied'')"
proof -
  have c: "example_config ''llm'' ''model_path'' = Inr ''models/llama-3.gguf''"
    by (simp add: plain_config_def example_config_def)
  have n: "empty_config ''llm'' ''model_path'' = Inl (NoSectionError ''llm'')"
    by (simp add: plain_config_def empty_config_def)
  have t: "generate_podcast_script llm_timeout example_paper example_config =
     ([(INFO, ''Generating podcast script for paper: '' @ apos @ ''Memory networks'' @ apos),
       (ERROR, ''Failed to generate podcast script: timed out'')],
      Inr [])"
    using generate_podcast_script_outcomes
            [of example_config "Exception ''timed out''" llm_timeout example_paper
                "''models/llama-3.gguf''"] c
    by (simp add: llm_timeout_def example_paper_def)
  have u: "generate_podcast_script llm_unparsable example_paper example_config =
     ([(INFO, ''Generating podcast script for paper: '' @ apos @ ''Memory networks'' @ apos)],
      Inr ''lorem ipsum'')"
    using generate_podcast_script_outcomes
            [of example_config _ llm_unparsable example_paper "''models/llama-3.gguf''" _
                "''lorem ipsum''"] c
    by (simp add: llm_unparsable_def example_paper_def)
  have s: "snd (generate_podcast_script llm_unparsable example_paper empty_config) =
     Inl (NoSectionError ''llm'')"
    using generate_podcast_script_outcomes
            [of empty_config "NoSectionError ''llm''" llm_unparsable example_paper] n
    by simp
  have m: "snd (generate_podcast_script llm_no_model example_paper example_config) =
     Inl (Exception ''model file not found'')"
    using generate_podcast_script_outcomes
            [of example_config "Exception ''model file not found''" llm_no_model example_paper
                "''models/llama-3.gguf''"] c
    by (simp add: llm_no_model_def)
  have k: "snd (generate_podcast_script llm_cleanup_fails example_paper example_config) =
     Inl (OSError ''permission denied'')"
    using generate_podcast_script_outcomes
            [of example_config _ llm_cleanup_fails example_paper "''models/llama-3.gguf''"
                "OSError ''permission denied''"] c
    by (simp add: llm_cleanup_fails_def)
  from t u s m k show ?thesis by simp
qed

theorem generate_podcast_script_counterexample:
  "snd (generate_podcast_script llm_unparsable example_paper example_config) = Inr ''lorem ipsum''
   \<and> snd (generate_podcast_script llm_timeout example_paper example_config) = Inr []
   \<and> snd (generate_podcast_script llm_empty example_paper example_config) = Inr []"
  by (simp add: generate_podcast_script_def plain_config_def example_config_def
      llm_unparsable_def llm_timeout_def llm_empty_def Let_def)

section \<open>The audio renderer\<close>

text \<open>The voice that the dict \<open>speaker_voice_mapping\<close> gives each configured name.\<close>

lemma build_request_ok:
  assumes "config ''api_keys'' ''tts_api_key'' = Inr tts_api_key"
    and "config ''tts'' ''api_url'' = Inr tts_api_url"
    and "config ''podcast'' ''expert_1'' = Inr k1"
    and "config ''podcast'' ''expert_2'' = Inr k2"
    and "config ''podcast'' ''expert_3'' = Inr k3"
  shows "build_request config =
           Inr \<lparr> request_url = tts_api_url @ ''?key='' @ tts_api_key,
                 payload_text = ''Hello, everyone, and welcome to Mindful Machines.'',
                 speaker_voice_configs =
                   [(''expert_1'',
                     if k1 = k3 then ''Kore'' else if k1 = k2 then ''Puck'' else ''Zephyr''),
                    (''expert_2'', if k2 = k3 then ''Kore'' else ''Puck''),
                    (''expert_3'', ''Kore'')],
                 payload_model = ''gemini-2.5-flash-preview-tts'' \<rparr>"
  using assms by (simp add: build_request_def and_then_def dict_getitem_def)

lemma build_request_cases:
  "(\<exists>a b c d f. config ''api_keys'' ''tts_api_key'' = Inr a
       \<and> config ''tts'' ''api_url'' = Inr b
       \<and> config ''podcast'' ''expert_1'' = Inr c
       \<and> config ''podcast'' ''expert_2'' = Inr d
       \<and> config ''podcast'' ''expert_3'' = Inr f)
   \<or> (\<exists>e. build_request config = Inl e
          \<and> (config ''api_keys'' ''tts_api_key'' = Inl e \<or> config ''tts'' ''api_url'' = Inl e
             \<or> config ''podcast'' ''expert_1'' = Inl e
             \<or> config ''podcast'' ''expert_2'' = Inl e
             \<or> config ''podcast'' ''expert_3'' = Inl e))"
proof (cases "config ''api_keys'' ''tts_api_key''")
  case (Inl x)
  then have "build_request config = Inl x"
    by (simp add: build_request_def and_then_def)
  with Inl show ?thesis by blast
next
  case a: (Inr a)
  show ?thesis
  proof (cases "config ''tts'' ''api_url''")
    case (Inl x)
    with a have "build_request config = Inl x"
      by (simp add: build_request_def and_then_def)
    with Inl show ?thesis by blast
  next
    case b: (Inr b)
    show ?thesis
    proof (cases "config ''podcast'' ''expert_1''")
      case (Inl x)
      with a b have "build_request config = Inl x"
        by (simp add: build_request_def and_then_def)
      with Inl show ?thesis by blast
    next
      case c: (Inr c)
      show ?thesis
      proof (cases "config ''podcast'' ''expert_2''")
        case (Inl x)
        with a b c have "build_request config = Inl x"
          by (simp add: build_request_def and_then_def)
        with Inl show ?thesis by blast
      next
        case d: (Inr d)
        show ?thesis
        proof (cases "config ''podcast'' ''expert_3''")
          case (Inl x)
          with a b c d have "build_request config = Inl x"
            by (simp add: build_request_def and_then_def)
          with Inl show ?thesis by blast
        next
          case (Inr f)
          with a b c d show ?thesis by blast
        qed
      qed
    qed
  qed
qed

lemma build_request_raises:
  assumes "build_request config = Inl e"
  shows "config ''api_keys'' ''tts_api_key'' = Inl e \<or> config ''tts'' ''api_url'' = Inl e
         \<or> config ''podcast'' ''expert_1'' = Inl e \<or> config ''podcast'' ''expert_2'' = Inl e
         \<or> config ''podcast'' ''expert_3'' = Inl e"
proof -
  from build_request_cases [of config] show ?thesis
  proof
    assume "\<exists>a b c d f. config ''api_keys'' ''tts_api_key'' = Inr a
       \<and> config ''tts'' ''api_url'' = Inr b
       \<and> config ''podcast'' ''expert_1'' = Inr c
       \<and> config ''podcast'' ''expert_2'' = Inr d
       \<and> config ''podcast'' ''expert_3'' = Inr f"
    then obtain a b c d f where
      "config ''api_keys'' ''tts_api_key'' = Inr a" "config ''tts'' ''api_url'' = Inr b"
      "config ''podcast'' ''expert_1'' = Inr c" "config ''podcast'' ''expert_2'' = Inr d"
      "config ''podcast'' ''expert_3'' = Inr f"
      by blast
    from build_request_ok [OF this] assms show ?thesis by simp
  next
    assume "\<exists>e. build_request config = Inl e
          \<and> (config ''api_keys'' ''tts_api_key'' = Inl e \<or> config ''tts'' ''api_url'' = Inl e
             \<or> config ''podcast'' ''expert_1'' = Inl e
             \<or> config ''podcast'' ''expert_2'' = Inl e
             \<or> config ''podcast'' ''expert_3'' = Inl e)"
    with assms show ?thesis by auto
  qed
qed

lemma build_request_fails:
  assumes "config ''api_keys'' ''tts_api_key'' = Inl e' \<or> config ''tts'' ''api_url'' = Inl e'
        \<or> config ''podcast'' ''expert_1'' = Inl e' \<or> config ''podcast'' ''expert_2'' = Inl e'
        \<or> config ''podcast'' ''expert_3'' = Inl e'"
  shows "\<exists>e. build_request config = Inl e"
proof -
  from build_request_cases [of config] show ?thesis
  proof
    assume "\<exists>a b c d f. config ''api_keys'' ''tts_api_key'' = Inr a
       \<and> config ''tts'' ''api_url'' = Inr b
       \<and> config ''podcast'' ''expert_1'' = Inr c
       \<and> config ''podcast'' ''expert_2'' = Inr d
       \<and> config ''podcast'' ''expert_3'' = Inr f"
    with assms show ?thesis by auto
  next
    assume "\<exists>e. build_request config = Inl e
          \<and> (config ''api_keys'' ''tts_api_key'' = Inl e \<or> config ''tts'' ''api_url'' = Inl e
             \<or> config ''podcast'' ''expert_1'' = Inl e
             \<or> config ''podcast'' ''expert_2'' = Inl e
             \<or> config ''podcast'' ''expert_3'' = Inl e)"
    then show ?thesis by blast
  qed
qed

text \<open>
  Claim C8, as amended. \<open>generate_podcast_audio\<close> never inspects the script: it does the
  same for every script. When the five configuration lookups it makes return values, it
  posts the synthesis request, whether or not the roles of the script have a voice, and
  returns \<open>True\<close> or \<open>False\<close>. The only failures before the external call are the
  exceptions that \<open>config.get\<close> raises in those lookups (a missing section or option,
  or a value that the parser cannot expand): they leave the function, and no request
  is posted.
\<close>

theorem generate_podcast_audio_ignores_script:
  "generate_podcast_audio post script config = generate_podcast_audio post script' config
   \<and> (config ''api_keys'' ''tts_api_key'' = Inr tts_api_key
        \<and> config ''tts'' ''api_url'' = Inr tts_api_url
        \<and> config ''podcast'' ''expert_1'' = Inr k1
        \<and> config ''podcast'' ''expert_2'' = Inr k2
        \<and> config ''podcast'' ''expert_3'' = Inr k3 \<longrightarrow>
        fst (snd (generate_podcast_audio post script config)) =
          [\<lparr> request_url = tts_api_url @ ''?key='' @ tts_api_key,
             payload_text = ''Hello, everyone, and welcome to Mindful Machines.'',
             speaker_voice_configs =
               [(''expert_1'',
                 if k1 = k3 then ''Kore'' else if k1 = k2 then ''Puck'' else ''Zephyr''),
                (''expert_2'', if k2 = k3 then ''Kore'' else ''Puck''),
                (''expert_3'', ''Kore'')],
             payload_model = ''gemini-2.5-flash-preview-tts'' \<rparr>]
        \<and> (\<exists>ok. snd (snd (generate_podcast_audio post script config)) = Inr ok))
   \<and> (snd (snd (generate_podcast_audio post script config)) = Inl e \<longrightarrow>
        generate_podcast_audio post script config =
          ([(INFO, ''Starting audio generation...'')], [], Inl e)
        \<and> (config ''api_keys'' ''tts_api_key'' = Inl e \<or> config ''tts'' ''api_url'' = Inl e
           \<or> config ''podcast'' ''expert_1'' = Inl e \<or> config ''podcast'' ''expert_2'' = Inl e
           \<or> config ''podcast'' ''expert_3'' = Inl e))
   \<and> (config ''api_keys'' ''tts_api_key'' = Inl e' \<or> config ''tts'' ''api_url'' = Inl e'
        \<or> config ''podcast'' ''expert_1'' = Inl e' \<or> config ''podcast'' ''expert_2'' = Inl e'
        \<or> config ''podcast'' ''expert_3'' = Inl e' \<longrightarrow>
        fst (snd (generate_podcast_audio post script config)) = []
        \<and> (\<exists>e''. snd (snd (generate_podcast_audio post script config)) = Inl e''))"
proof (intro conjI impI)
  show "generate_podcast_audio post script config = generate_podcast_audio post script' config"
    by (simp add: generate_podcast_audio_def)
next
  assume "config ''api_keys'' ''tts_api_key'' = Inr tts_api_key
        \<and> config ''tts'' ''api_url'' = Inr tts_api_url
        \<and> config ''podcast'' ''expert_1'' = Inr k1
        \<and> config ''podcast'' ''expert_2'' = Inr k2
        \<and> config ''podcast'' ''expert_3'' = Inr k3"
  then have f: "config ''api_keys'' ''tts_api_key'' = Inr tts_api_key"
      "config ''tts'' ''api_url'' = Inr tts_api_url"
      "config ''podcast'' ''expert_1'' = Inr k1"
      "config ''podcast'' ''expert_2'' = Inr k2"
      "config ''podcast'' ''expert_3'' = Inr k3"
    by simp_all
  have b: "build_request config =
           Inr \<lparr> request_url = tts_api_url @ ''?key='' @ tts_api_key,
                 payload_text = ''Hello, everyone, and welcome to Mindful Machines.'',
                 speaker_voice_configs =
                   [(''expert_1'',
                     if k1 = k3 then ''Kore'' else if k1 = k2 then ''Puck'' else ''Zephyr''),
                    (''expert_2'', if k2 = k3 then ''Kore'' else ''Puck''),
                    (''expert_3'', ''Kore'')],
                 payload_model = ''gemini-2.5-flash-preview-tts'' \<rparr>"
    by (rule build_request_ok [OF f])
  show "fst (snd (generate_podcast_audio post script config)) =
          [\<lparr> request_url = tts_api_url @ ''?key='' @ tts_api_key,
             payload_text = ''Hello, everyone, and welcome to Mindful Machines.'',
             speaker_voice_configs =
               [(''expert_1'',
                 if k1 = k3 then ''Kore'' else if k1 = k2 then ''Puck'' else ''Zephyr''),
                (''expert_2'', if k2 = k3 then ''Kore'' else ''Puck''),
                (''expert_3'', ''Kore'')],
             payload_model = ''gemini-2.5-flash-preview-tts'' \<rparr>]"
    by (cases "post \<lparr> request_url = tts_api_url @ ''?key='' @ tts_api_key,
             payload_text = ''Hello, everyone, and welcome to Mindful Machines.'',
             speaker_voice_configs =
               [(''expert_1'',
                 if k1 = k3 then ''Kore'' else if k1 = k2 then ''Puck'' else ''Zephyr''),
                (''expert_2'', if k2 = k3 then ''Kore'' else ''Puck''),
                (''expert_3'', ''Kore'')],
             payload_model = ''gemini-2.5-flash-preview-tts'' \<rparr>")
       (simp_all add: generate_podcast_audio_def b Let_def)
  show "\<exists>ok. snd (snd (generate_podcast_audio post script config)) = Inr ok"
    by (cases "post \<lparr> request_url = tts_api_url @ ''?key='' @ tts_api_key,
             payload_text = ''Hello, everyone, and welcome to Mindful Machines.'',
             speaker_voice_configs =
               [(''expert_1'',
                 if k1 = k3 then ''Kore'' else if k1 = k2 then ''Puck'' else ''Zephyr''),
                (''expert_2'', if k2 = k3 then ''Kore'' else ''Puck''),
                (''expert_3'', ''Kore'')],
             payload_model = ''gemini-2.5-flash-preview-tts'' \<rparr>")
       (auto simp add: generate_podcast_audio_def b Let_def)
next
  assume r: "snd (snd (generate_podcast_audio post script config)) = Inl e"
  then have b: "build_request config = Inl e"
    by (simp add: generate_podcast_audio_def Let_def split: sum.splits tts_outcome.splits)
  then show "generate_podcast_audio post script config =
          ([(INFO, ''Starting audio generation...'')], [], Inl e)"
    by (simp add: generate_podcast_audio_def)
  from b show "config ''api_keys'' ''tts_api_key'' = Inl e \<or> config ''tts'' ''api_url'' = Inl e
           \<or> config ''podcast'' ''expert_1'' = Inl e \<or> config ''podcast'' ''expert_2'' = Inl e
           \<or> config ''podcast'' ''expert_3'' = Inl e"
    by (rule build_request_raises)
next
  assume f: "config ''api_keys'' ''tts_api_key'' = Inl e' \<or> config ''tts'' ''api_url'' = Inl e'
        \<or> config ''podcast'' ''expert_1'' = Inl e' \<or> config ''podcast'' ''expert_2'' = Inl e'
        \<or> config ''podcast'' ''expert_3'' = Inl e'"
  then have "\<exists>e''. build_request config = Inl e''"
    by (rule build_request_fails)
  then obtain e'' where b: "build_request config = Inl e''" by blast
  then show "fst (snd (generate_podcast_audio post script config)) = []"
    by (simp add: generate_podcast_audio_def)
  from b show "\<exists>e''. snd (snd (generate_podcast_audio post script config)) = Inl e''"
    by (simp add: generate_podcast_audio_def)
qed

lemma build_request_example: "build_request example_config = Inr example_request"
  by (simp add: build_request_def and_then_def plain_config_def example_config_def
      dict_getitem_def example_request_def)

theorem generate_podcast_audio_ignores_script_witness:
  "generate_podcast_audio post_ok example_script example_config =
       ([(INFO, ''Starting audio generation...''),
         (INFO, ''Audio file saved successfully to output/audio/podcast_episode.wav'')],
        [example_request], Inr True)
   \<and> generate_podcast_audio post_ok example_script config_with_percent =
       ([(INFO, ''Starting audio generation...'')], [],
        Inl (InterpolationSyntaxError
               (apos @ ''%'' @ apos @ '' must be followed by '' @ apos @ ''%'' @ apos
                @ '' or '' @ apos @ ''('' @ apos @ '', found: '' @ apos @ ''%cd'' @ apos)))
   \<and> generate_podcast_audio post_ok example_script empty_config =
       ([(INFO, ''Starting audio generation...'')], [], Inl (NoSectionError ''api_keys''))"
proof -
  have g: "generate_podcast_audio post_ok example_script example_config =
       ([(INFO, ''Starting audio generation...''),
         (INFO, ''Audio file saved successfully to output/audio/podcast_episode.wav'')],
        [example_request], Inr True)"
    by (simp add: generate_podcast_audio_def build_request_example post_ok_def)
  have p: "snd (snd (generate_podcast_audio post_ok example_script config_with_percent)) =
        Inl (InterpolationSyntaxError
               (apos @ ''%'' @ apos @ '' must be followed by '' @ apos @ ''%'' @ apos
                @ '' or '' @ apos @ ''('' @ apos @ '', found: '' @ apos @ ''%cd'' @ apos))"
    by (simp add: generate_podcast_audio_def build_request_def and_then_def
        config_with_percent_def example_config_def plain_config_def)
  have n: "snd (snd (generate_podcast_audio post_ok example_script empty_config)) =
        Inl (NoSectionError ''api_keys'')"
    by (simp add: generate_podcast_audio_def build_request_def and_then_def
        empty_config_def plain_config_def)
  from generate_podcast_audio_ignores_script
         [of post_ok example_script config_with_percent example_script _ _ _ _ _
             "InterpolationSyntaxError
               (apos @ ''%'' @ apos @ '' must be followed by '' @ apos @ ''%'' @ apos
                @ '' or '' @ apos @ ''('' @ apos @ '', found: '' @ apos @ ''%cd'' @ apos)"] p
  have p': "generate_podcast_audio post_ok example_script config_with_percent =
       ([(INFO, ''Starting audio generation...'')], [],
        Inl (InterpolationSyntaxError
               (apos @ ''%'' @ apos @ '' must be followed by '' @ apos @ ''%'' @ apos
                @ '' or '' @ apos @ ''('' @ apos @ '', found: '' @ apos @ ''%cd'' @ apos)))"
    by blast
  from generate_podcast_audio_ignores_script
         [of post_ok example_script empty_config example_script _ _ _ _ _
             "NoSectionError ''api_keys''"] n
  have n': "generate_podcast_audio post_ok example_script empty_config =
       ([(INFO, ''Starting audio generation...'')], [], Inl (NoSectionError ''api_keys''))"
    by blast
  from g p' n' show ?thesis by simp
qed

theorem generate_podcast_audio_unmapped_role_counterexample:
  "\<not> spec_roles_mapped example_script example_assignment
   \<and> fst (snd (generate_podcast_audio post_ok example_script example_config)) = [example_request]
   \<and> snd (snd (generate_podcast_audio post_ok example_script example_config)) = Inr True"
  by (simp add: spec_roles_mapped_def example_script_def example_assignment_def
      generate_podcast_audio_def build_request_example post_ok_def)

section \<open>The orchestrator\<close>

lemma step5_form:
  "\<exists>post. step5 run tr c =
            tr @ Log INFO ''Step 5: Generating the podcast audio.''
               # Call_generate_podcast_audio c # post"
  by (simp add: step5_def unhandled_def Let_def split: sum.splits)

lemma step5_audio:
  "Call_generate_podcast_audio c' \<in> set (step5 run tr c) \<longleftrightarrow>
     Call_generate_podcast_audio c' \<in> set tr \<or> c' = c"
  by (auto simp add: step5_def unhandled_def Let_def split: sum.splits)

lemma step4a_audio:
  assumes "Call_generate_podcast_audio c' \<in> set (step4a run tr c)"
    and "Call_generate_podcast_audio c' \<notin> set tr"
  shows "c' = c \<and> makedirs_result run = None \<and> save_result run = None"
  using assms
  by (auto simp add: step4a_def step5_audio unhandled_def Let_def split: option.splits)

lemma step4_audio:
  assumes "Call_generate_podcast_audio c' \<in> set (step4 run tr selected)"
    and "Call_generate_podcast_audio c' \<notin> set tr"
  shows "generate_podcast_script_result run = Inr c' \<and> c' \<noteq> []
         \<and> makedirs_result run = None \<and> save_result run = None"
  using assms
  by (auto simp add: step4_def unhandled_def Let_def split: sum.splits if_splits
      dest!: step4a_audio)

lemma step2_audio:
  assumes "Call_generate_podcast_audio c' \<in> set (step2 run tr papers)"
    and "Call_generate_podcast_audio c' \<notin> set tr"
  shows "\<exists>ranked selected. rank_papers_result run = Inr ranked
           \<and> select_top_paper_result run = Inr selected \<and> selected \<noteq> []
           \<and> generate_podcast_script_result run = Inr c' \<and> c' \<noteq> []
           \<and> makedirs_result run = None \<and> save_result run = None"
  using assms
  by (auto simp add: step2_def unhandled_def Let_def split: sum.splits if_splits
      dest!: step4_audio)

lemma main_audio:
  assumes "Call_generate_podcast_audio c \<in> set (main run)"
  shows "\<exists>papers ranked selected.
           load_config_result run = None
           \<and> scrape_papers_result run = Inr (Some papers) \<and> papers \<noteq> []
           \<and> rank_papers_result run = Inr ranked
           \<and> select_top_paper_result run = Inr selected \<and> selected \<noteq> []
           \<and> generate_podcast_script_result run = Inr c \<and> c \<noteq> []
           \<and> makedirs_result run = None \<and> save_result run = None"
  using assms
  by (auto simp add: main_def unhandled_def Let_def split: sum.splits option.splits if_splits
      dest!: step2_audio)

text \<open>The events of a run up to the saving of the script.\<close>

lemma main_saved:
  assumes "load_config_result run = None"
    and "scrape_papers_result run = Inr (Some papers)" and "papers \<noteq> []"
    and "rank_papers_result run = Inr ranked"
    and "select_top_paper_result run = Inr selected" and "selected \<noteq> []"
    and "generate_podcast_script_result run = Inr c" and "c \<noteq> []"
    and "makedirs_result run = None" and "save_result run = None"
  shows "main run =
           step5 run
             ([Log INFO ''Starting the AI podcast generation pipeline.'',
               Call_load_config ''./config/settings.ini'',
               Log INFO ''Step 1: Scraping papers from arXiv.'',
               Call_scrape_papers,
               Log INFO (''Step 2: Ranking '' @ str_nat (length papers) @ '' papers.''),
               Call_rank_papers papers,
               Log INFO ''Step 3: Selecting the top paper.'',
               Call_select_top_paper ranked,
               Log INFO ''Step 4: Generating the podcast script.'',
               Call_generate_podcast_script selected,
               Call_makedirs ''./output/scripts'',
               Log INFO (''Saving script to '' @ script_file_path run)]
              @ [Script_saved (script_file_path run) c]) c"
  using assms by (simp add: main_def step2_def step4_def step4a_def Let_def)

lemma main_synthesis_succeeded:
  assumes "Call_generate_podcast_script selected \<in> set (main run)"
    and "generate_podcast_script_result run = Inr c" and "c \<noteq> []"
  shows "(makedirs_result run = None \<and> save_result run = None
            \<and> Script_saved (script_file_path run) c \<in> set (main run)
            \<and> Call_generate_podcast_audio c \<in> set (main run))
         \<or> ((makedirs_result run \<noteq> None \<or> save_result run \<noteq> None)
            \<and> (\<forall>c'. Call_generate_podcast_audio c' \<notin> set (main run)))"
  using assms
  by (auto simp add: main_def step2_def step4_def step4a_def step5_def unhandled_def Let_def
      split: sum.splits option.splits if_splits)

text \<open>
  Claim C9. In every run of \<open>main\<close> in which the script generation returns a
  non-empty script, the script is written to its file before the rendering is attempted:
  either the saving raises and \<open>generate_podcast_audio\<close> is never called, or the script
  is saved and then passed to \<open>generate_podcast_audio\<close>. A run that enters the
  rendering stage is some events without any rendering call, then the saving of the
  generated script, then the rendering call on the same script and what follows it;
  what the rendering returns or raises changes nothing before it, so the saved script
  stays.
\<close>

theorem main_saves_script_before_audio:
  "(Call_generate_podcast_audio c \<in> set (main run) \<longrightarrow>
      (\<exists>pre post.
         main run = pre @ Script_saved (script_file_path run) c
                        # Log INFO ''Step 5: Generating the podcast audio.''
                        # Call_generate_podcast_audio c # post
         \<and> (\<forall>c'. Call_generate_podcast_audio c' \<notin> set pre)
         \<and> generate_podcast_script_result run = Inr c \<and> c \<noteq> []))
   \<and> (Call_generate_podcast_script selected \<in> set (main run)
        \<and> generate_podcast_script_result run = Inr c \<and> c \<noteq> [] \<longrightarrow>
      (makedirs_result run = None \<and> save_result run = None
         \<and> Script_saved (script_file_path run) c \<in> set (main run)
         \<and> Call_generate_podcast_audio c \<in> set (main run))
      \<or> ((makedirs_result run \<noteq> None \<or> save_result run \<noteq> None)
         \<and> (\<forall>c'. Call_generate_podcast_audio c' \<notin> set (main run))))"
proof (intro conjI impI)
  assume a: "Call_generate_podcast_audio c \<in> set (main run)"
  from main_audio [OF a] obtain papers ranked selected where
    f: "load_config_result run = None"
       "scrape_papers_result run = Inr (Some papers)" "papers \<noteq> []"
       "rank_papers_result run = Inr ranked"
       "select_top_paper_result run = Inr selected" "selected \<noteq> []"
       "generate_podcast_script_result run = Inr c" "c \<noteq> []"
       "makedirs_result run = None" "save_result run = None"
    by blast
  let ?pre = "[Log INFO ''Starting the AI podcast generation pipeline.'',
               Call_load_config ''./config/settings.ini'',
               Log INFO ''Step 1: Scraping papers from arXiv.'',
               Call_scrape_papers,
               Log INFO (''Step 2: Ranking '' @ str_nat (length papers) @ '' papers.''),
               Call_rank_papers papers,
               Log INFO ''Step 3: Selecting the top paper.'',
               Call_select_top_paper ranked,
               Log INFO ''Step 4: Generating the podcast script.'',
               Call_generate_podcast_script selected,
               Call_makedirs ''./output/scripts'',
               Log INFO (''Saving script to '' @ script_file_path run)]"
  have m: "main run = step5 run (?pre @ [Script_saved (script_file_path run) c]) c"
    using f by (rule main_saved)
  from step5_form [of run "?pre @ [Script_saved (script_file_path run) c]" c]
  obtain post where
    "step5 run (?pre @ [Script_saved (script_file_path run) c]) c =
       (?pre @ [Script_saved (script_file_path run) c])
         @ Log INFO ''Step 5: Generating the podcast audio.''
         # Call_generate_podcast_audio c # post"
    by blast
  with m have "main run = ?pre @ Script_saved (script_file_path run) c
                          # Log INFO ''Step 5: Generating the podcast audio.''
                          # Call_generate_podcast_audio c # post"
    by simp
  moreover have "\<forall>c'. Call_generate_podcast_audio c' \<notin> set ?pre"
    by simp
  ultimately show "\<exists>pre post.
         main run = pre @ Script_saved (script_file_path run) c
                        # Log INFO ''Step 5: Generating the podcast audio.''
                        # Call_generate_podcast_audio c # post
         \<and> (\<forall>c'. Call_generate_podcast_audio c' \<notin> set pre)
         \<and> generate_podcast_script_result run = Inr c \<and> c \<noteq> []"
    using f(7,8) by blast
next
  assume "Call_generate_podcast_script selected \<in> set (main run)
          \<and> generate_podcast_script_result run = Inr c \<and> c \<noteq> []"
  then show "(makedirs_result run = None \<and> save_result run = None
         \<and> Script_saved (script_file_path run) c \<in> set (main run)
         \<and> Call_generate_podcast_audio c \<in> set (main run))
      \<or> ((makedirs_result run \<noteq> None \<or> save_result run \<noteq> None)
         \<and> (\<forall>c'. Call_generate_podcast_audio c' \<notin> set (main run)))"
    using main_synthesis_succeeded [of selected run c] by blast
qed

theorem main_saves_script_before_audio_witness:
  "main run_render_fails =
     [Log INFO ''Starting the AI podcast generation pipeline.'',
      Call_load_config ''./config/settings.ini'',
      Log INFO ''Step 1: Scraping papers from arXiv.'',
      Call_scrape_papers,
      Log INFO ''Step 2: Ranking 2 papers.'',
      Call_rank_papers [0, 1],
      Log INFO ''Step 3: Selecting the top paper.'',
      Call_select_top_paper [1, 0],
      Log INFO ''Step 4: Generating the podcast script.'',
      Call_generate_podcast_script [1],
      Call_makedirs ''./output/scripts'',
      Log INFO ''Saving script to ./output/scripts/script_2025-01-01_12-00-00.json'',
      Script_saved ''./output/scripts/script_2025-01-01_12-00-00.json'' ''ML Expert: Hello.'',
      Log INFO ''Step 5: Generating the podcast audio.'',
      Call_generate_podcast_audio ''ML Expert: Hello.'',
      Log ERROR ''Audio generation failed. Pipeline aborted.'']
   \<and> generate_podcast_script_result run_render_fails = Inr ''ML Expert: Hello.''"
proof -
  have m: "main run_render_fails =
     [Log INFO ''Starting the AI podcast generation pipeline.'',
      Call_load_config ''./config/settings.ini'',
      Log INFO ''Step 1: Scraping papers from arXiv.'',
      Call_scrape_papers,
      Log INFO ''Step 2: Ranking 2 papers.'',
      Call_rank_papers [0, 1],
      Log INFO ''Step 3: Selecting the top paper.'',
      Call_select_top_paper [1, 0],
      Log INFO ''Step 4: Generating the podcast script.'',
      Call_generate_podcast_script [1],
      Call_makedirs ''./output/scripts'',
      Log INFO ''Saving script to ./output/scripts/script_2025-01-01_12-00-00.json'',
      Script_saved ''./output/scripts/script_2025-01-01_12-00-00.json'' ''ML Expert: Hello.'',
      Log INFO ''Step 5: Generating the podcast audio.'',
      Call_generate_podcast_audio ''ML Expert: Hello.'',
      Log ERROR ''Audio generation failed. Pipeline aborted.'']"
    by (simp add: main_def step2_def step4_def step4a_def step5_def Let_def
        run_render_fails_def run_complete_def script_file_path_def digit_def str_nat.simps)
  then have "Call_generate_podcast_audio ''ML Expert: Hello.'' \<in> set (main run_render_fails)"
    by simp
  with main_saves_script_before_audio [of "''ML Expert: Hello.''" run_render_fails] m
  show ?thesis
    by blast
qed

end
